theory Spec2Isabelle
  imports Main
begin

section \<open>The von-image build script \<^verbatim>\<open>make_image.py\<close>\<close>

text \<open>
  The script is one top-level sequence of statements: it parses the command line, picks a
  catalog entry, resolves the python version, the tag and the build arguments, and then
  either rewrites the \<^verbatim>\<open>ARG\<close> lines of a Dockerfile template or runs a
  sequence of \<^verbatim>\<open>docker\<close> commands. The embedding follows the source line by
  line. Strings are \<^typ>\<open>string\<close>; a character stands for the code point of the same
  number (0 to 255). Every raise and every \<^verbatim>\<open>sys.exit\<close> is a branch of the
  model. What the script only prints is not modelled.
\<close>

subsection \<open>Python values\<close>

text \<open>
  The ways a run ends early: the error exit of the argument parser, and the two uncaught
  exceptions. \<open>FileNotFoundError\<close> stands for any \<^verbatim>\<open>OSError\<close> of an
  \<^verbatim>\<open>open\<close>; they all end the run alike.
\<close>

datatype py_error = ArgparseError | ValueError | FileNotFoundError

text \<open>
  A dict: keys unique, items in the order of first insertion (as Python 3.7 and later keep
  them); assignment to a present key replaces the value and keeps the place.
\<close>

type_synonym dict = "(string \<times> string) list"

fun dict_setitem :: "string \<Rightarrow> string \<Rightarrow> dict \<Rightarrow> dict" where
  "dict_setitem k v [] = [(k, v)]"
| "dict_setitem k v ((k', v') # d) =
     (if k' = k then (k', v) # d else (k', v') # dict_setitem k v d)"

definition dict_get :: "dict \<Rightarrow> string \<Rightarrow> string option" where
  "dict_get d k = map_of d k"

text \<open>\<^verbatim>\<open>d.update(other)\<close>: one assignment for each item of the other dict, in order.\<close>

fun dict_update :: "dict \<Rightarrow> dict \<Rightarrow> dict" where
  "dict_update d [] = d"
| "dict_update d ((k, v) # other) = dict_update (dict_setitem k v d) other"

text \<open>Truthiness of an optional string: \<^verbatim>\<open>None\<close> and the empty string are false.\<close>

definition truthy :: "string option \<Rightarrow> bool" where
  "truthy x = (case x of None \<Rightarrow> False | Some s \<Rightarrow> s \<noteq> [])"

text \<open>\<^verbatim>\<open>x or d\<close> for an optional string \<open>x\<close>.\<close>

definition py_or :: "string option \<Rightarrow> string \<Rightarrow> string" where
  "py_or x d = (case x of None \<Rightarrow> d | Some s \<Rightarrow> if s \<noteq> [] then s else d)"

text \<open>
  \<^verbatim>\<open>s.split(sep, maxsplit)\<close> for a separator of one character: the string is cut at
  the leftmost \<open>maxsplit\<close> occurrences of the separator at most, so the result has up to
  \<open>maxsplit + 1\<close> parts.
\<close>

fun py_split :: "char \<Rightarrow> nat \<Rightarrow> string \<Rightarrow> string list" where
  "py_split sep 0 s = [s]"
| "py_split sep (Suc n) s =
     (if sep \<in> set s
      then takeWhile (\<lambda>c. c \<noteq> sep) s # py_split sep n (tl (dropWhile (\<lambda>c. c \<noteq> sep) s))
      else [s])"

text \<open>
  \<^verbatim>\<open>x, y = parts\<close>: unpacking into two targets raises \<^verbatim>\<open>ValueError\<close> unless
  there are exactly two parts.
\<close>

definition unpack2 :: "string list \<Rightarrow> py_error + (string \<times> string)" where
  "unpack2 parts = (case parts of [x, y] \<Rightarrow> Inr (x, y) | _ \<Rightarrow> Inl ValueError)"

text \<open>\<^verbatim>\<open>str(n)\<close> for an integer: decimal digits, a minus sign when negative.\<close>

definition digit_char :: "nat \<Rightarrow> char" where
  "digit_char d = ''0123456789'' ! d"

function str_nat :: "nat \<Rightarrow> string" where
  "str_nat n = (if n < 10 then [digit_char n] else str_nat (n div 10) @ [digit_char (n mod 10)])"
  by pat_completeness auto
termination
  by (relation "measure (\<lambda>n. n)") auto

declare str_nat.simps [simp del]

definition str_int :: "int \<Rightarrow> string" where
  "str_int i = (if i < 0 then CHR ''-'' # str_nat (nat (- i)) else str_nat (nat i))"

subsection \<open>The catalog and the command line\<close>

record ver_entry =
  ver_version :: "string option"
  ver_path :: "string option"
  ver_python_version :: "string option"
  ver_args :: dict

definition VERSIONS :: "(string \<times> ver_entry) list" where
  "VERSIONS = [
    (''dev-441'',
     \<lparr>ver_version = Some ''indy1.3.1-dev-441-ew'', ver_path = None, ver_python_version = None,
      ver_args =
        [(''indy_sdk_repo'',
          ''https://github.com/bcgov/indy-sdk.git''),
         (''indy_sdk_rev'',
          ''574ca3a881d188c3fd7400d27acbe5edc4c7f666''),
         (''indy_crypto_repo'',
          ''https://github.com/hyperledger/indy-crypto.git''),
         (''indy_crypto_rev'',
          ''96c79b36c5056eade5a8e3bae418f5a733cc8d8d'')]\<rparr>),
    (''1.0'',
     \<lparr>ver_version = Some ''1.0rc3'', ver_path = None, ver_python_version = None,
      ver_args =
        [(''indy_sdk_url'',
          ''https://codeload.github.com/ianco/indy-sdk/tar.gz/50ede4563a6a303b09d78ca97d3238e6c10333f6''),
         (''indy_crypto_url'',
          ''https://codeload.github.com/hyperledger/indy-crypto/tar.gz/96c79b36c5056eade5a8e3bae418f5a733cc8d8d'')]\<rparr>),
    (''1.0std'',
     \<lparr>ver_version = None, ver_path = Some ''1.0'', ver_python_version = None,
      ver_args =
        [(''indy_sdk_url'',
          ''https://codeload.github.com/hyperledger/indy-sdk/tar.gz/e0ef8889e9f3b9abd706628fe259f56501d492d9''),
         (''indy_crypto_url'',
          ''https://codeload.github.com/hyperledger/indy-crypto/tar.gz/96c79b36c5056eade5a8e3bae418f5a733cc8d8d'')]\<rparr>),
    (''1.5'',
     \<lparr>ver_version = Some ''1.5-0'', ver_path = None, ver_python_version = None,
      ver_args =
        [(''indy_sdk_url'',
          ''https://codeload.github.com/hyperledger/indy-sdk/tar.gz/16c637cbe855c46bf1d3a869e9ebcfc99bb9aabf''),
         (''indy_crypto_url'',
          ''https://codeload.github.com/hyperledger/indy-crypto/tar.gz/9586d6a24f53f2aa0621249f2266d0f129253c48'')]\<rparr>),
    (''1.6'',
     \<lparr>ver_version = Some ''1.6-11'', ver_path = None, ver_python_version = None,
      ver_args =
        [(''indy_sdk_url'',
          ''https://codeload.github.com/hyperledger/indy-sdk/tar.gz/5a37407baaf756b3c4f5cac802717dc4a2bd1660''),
         (''indy_crypto_url'',
          ''https://codeload.github.com/hyperledger/indy-crypto/tar.gz/a2864642430064c6f00902e9b999cc6356eed9f1'')]\<rparr>),
    (''1.6-ew'',
     \<lparr>ver_version = Some ''1.6-ew-11'', ver_path = None, ver_python_version = None,
      ver_args =
        [(''indy_sdk_url'',
          ''https://codeload.github.com/bcgov/indy-sdk/tar.gz/88424a10f53a7e47c49143b9866a0d531c1d9420''),
         (''indy_crypto_url'',
          ''https://codeload.github.com/hyperledger/indy-crypto/tar.gz/a2864642430064c6f00902e9b999cc6356eed9f1'')]\<rparr>)]"

definition DEFAULT_NAME :: string where
  "DEFAULT_NAME = ''bcgovimages/von-image''"

definition PY_35_VERSION :: string where
  "PY_35_VERSION = ''3.5.5''"

definition PY_36_VERSION :: string where
  "PY_36_VERSION = ''3.6.7''"

text \<open>
  The namespace that \<^verbatim>\<open>parser.parse_args()\<close> returns. \<^verbatim>\<open>--py35\<close>,
  \<^verbatim>\<open>--py36\<close> and \<^verbatim>\<open>--python\<close> all store into \<open>python\<close>;
  \<^verbatim>\<open>--debug\<close> and \<^verbatim>\<open>--release\<close> both store into \<open>debug\<close>.
\<close>

record args =
  arg_name :: string
  arg_tag :: "string option"
  arg_file :: "string option"
  arg_build_arg :: "string list option"
  arg_debug :: bool
  arg_dry_run :: bool
  arg_no_cache :: bool
  arg_output :: "string option"
  arg_python :: "string option"
  arg_push :: bool
  arg_quiet :: bool
  arg_s2i :: bool
  arg_squash :: bool
  arg_test :: bool
  arg_version :: string

text \<open>
  The namespace for a command line that holds the version and nothing else: every option
  has its default (\<open>debug\<close> takes the default of \<^verbatim>\<open>--debug\<close>, the first action
  added for that destination, which is \<^verbatim>\<open>False\<close>).
\<close>

definition default_args :: "string \<Rightarrow> args" where
  "default_args v =
     \<lparr>arg_name = DEFAULT_NAME, arg_tag = None, arg_file = None, arg_build_arg = None,
      arg_debug = False, arg_dry_run = False, arg_no_cache = False, arg_output = None,
      arg_python = None, arg_push = False, arg_quiet = False, arg_s2i = False,
      arg_squash = False, arg_test = False, arg_version = v\<rparr>"

subsection \<open>Resolution (lines 86 to 116)\<close>

definition py_ver :: "args \<Rightarrow> ver_entry \<Rightarrow> string" where
  "py_ver a ver =
     py_or (arg_python a)
       (case ver_python_version ver of Some p \<Rightarrow> p | None \<Rightarrow> PY_35_VERSION)"

definition target :: "args \<Rightarrow> ver_entry \<Rightarrow> string" where
  "target a ver = (case ver_path ver of Some p \<Rightarrow> p | None \<Rightarrow> arg_version a)"

definition dockerfile :: "args \<Rightarrow> ver_entry \<Rightarrow> string" where
  "dockerfile a ver = py_or (arg_file a) (target a ver @ ''/Dockerfile.ubuntu'')"

text \<open>Lines 95 to 104; the result is \<open>(tag, tag_name, tag_version)\<close>.\<close>

definition resolve_tag :: "args \<Rightarrow> ver_entry \<Rightarrow> py_error + (string \<times> string \<times> string)" where
  "resolve_tag a ver =
     (if truthy (arg_tag a) then
        (let tag = the (arg_tag a) in
         case unpack2 (py_split (CHR '':'') 2 tag) of
           Inl err \<Rightarrow> Inl err
         | Inr (tag_name, tag_version) \<Rightarrow> Inr (tag, tag_name, tag_version))
      else
        (let pfx = ''py'' @ take 1 (py_ver a ver) @ take 1 (drop 2 (py_ver a ver)) @ ''-'';
             tag_version = pfx @ (case ver_version ver of Some l \<Rightarrow> l | None \<Rightarrow> arg_version a);
             tag_version = (if arg_debug a then tag_version @ ''-debug'' else tag_version)
         in Inr (arg_name a @ '':'' @ tag_version, arg_name a, tag_version)))"

text \<open>The loop of lines 114 to 116 over the \<^verbatim>\<open>--build-arg\<close> tokens.\<close>

fun add_build_args :: "dict \<Rightarrow> string list \<Rightarrow> py_error + dict" where
  "add_build_args d [] = Inr d"
| "add_build_args d (arg # rest) =
     (case unpack2 (py_split (CHR ''='') 2 arg) of
        Inl err \<Rightarrow> Inl err
      | Inr (key, val) \<Rightarrow> add_build_args (dict_setitem key val d) rest)"

text \<open>Lines 106 to 116.\<close>

definition build_args :: "args \<Rightarrow> ver_entry \<Rightarrow> string \<Rightarrow> string \<Rightarrow> py_error + dict" where
  "build_args a ver tag_name tag_version =
     (let d = dict_update [] (ver_args ver);
          d = dict_setitem ''python_version'' (py_ver a ver) d;
          d = dict_setitem ''tag_name'' tag_name d;
          d = dict_setitem ''tag_version'' tag_version d;
          d = (if \<not> arg_debug a then dict_setitem ''indy_build_flags'' ''--release'' d else d)
      in case arg_build_arg a of
           None \<Rightarrow> Inr d
         | Some toks \<Rightarrow> add_build_args d toks)"

record plan =
  p_target :: string
  p_dockerfile :: string
  p_tag :: string
  p_build_args :: dict

text \<open>
  Lines 84 to 116 together. \<^verbatim>\<open>parse_args\<close> rejects a version that is not a key of
  the catalog (\<^verbatim>\<open>choices=VERSIONS.keys()\<close>).
\<close>

definition resolve :: "args \<Rightarrow> py_error + plan" where
  "resolve a =
     (case map_of VERSIONS (arg_version a) of
        None \<Rightarrow> Inl ArgparseError
      | Some ver \<Rightarrow>
          (case resolve_tag a ver of
             Inl err \<Rightarrow> Inl err
           | Inr (tag, tag_name, tag_version) \<Rightarrow>
               (case build_args a ver tag_name tag_version of
                  Inl err \<Rightarrow> Inl err
                | Inr d \<Rightarrow>
                    Inr \<lparr>p_target = target a ver, p_dockerfile = dockerfile a ver,
                         p_tag = tag, p_build_args = d\<rparr>)))"

subsection \<open>The world outside the script\<close>

text \<open>
  A path names a file through the environment: \<open>env_file\<close> gives the place (a number)
  that a path leads to once the working directory, dot segments and links are resolved, so
  two paths to the same file give the same place; it gives \<open>None\<close> for a path that
  cannot be opened at all (a directory of it is missing, access is refused). The files are a
  map from places to contents. A place without content is a file that is not there: opening
  it for reading raises \<^verbatim>\<open>FileNotFoundError\<close>, opening it for writing creates it.
  The content of a file is the list of its lines, as iterating over it yields them (each
  with its line end, the last one perhaps without); for a file being written it is the list
  of the strings written to it.

  A finished child process gives its return code and, for
  \<^verbatim>\<open>docker image inspect\<close>, what
  \<^verbatim>\<open>int(stdout.decode('ascii').strip())\<close> makes of its output (\<open>None\<close> when
  that raises). The environment answers each \<^verbatim>\<open>subprocess.run\<close> from the number
  of earlier calls and the argument vector, and fixes the value that
  \<^verbatim>\<open>random.randint(100000, 999999)\<close> returns. Every child process is taken to
  start and to finish.
\<close>

record completed =
  returncode :: int
  stdout_int :: "int option"

record env =
  env_file :: "string \<Rightarrow> nat option"
  env_fs :: "nat \<rightharpoonup> string list"
  env_randint :: int
  env_run :: "nat \<Rightarrow> string list \<Rightarrow> completed"

datatype step = BaseBuild | MainBuild | Inspect | S2iBuild | TestBuild | TestRun | Push

record proc =
  proc_step :: step
  proc_argv :: "string list"
  proc_returncode :: int

text \<open>
  What a run leaves behind: the exit status of the interpreter, the exception that ended
  it (if one did), the child processes it ran, in order, and the files.
\<close>

record result =
  exit_code :: int
  raised :: "py_error option"
  procs :: "proc list"
  files :: "nat \<rightharpoonup> string list"

definition sys_exit :: "int \<Rightarrow> proc list \<Rightarrow> (nat \<rightharpoonup> string list) \<Rightarrow> result" where
  "sys_exit code tr fs = \<lparr>exit_code = code, raised = None, procs = tr, files = fs\<rparr>"

text \<open>
  An exception nobody catches ends the interpreter with status 1; the error exit of
  \<^verbatim>\<open>argparse\<close> has status 2.
\<close>

definition uncaught :: "py_error \<Rightarrow> proc list \<Rightarrow> (nat \<rightharpoonup> string list) \<Rightarrow> result" where
  "uncaught err tr fs =
     \<lparr>exit_code = (if err = ArgparseError then 2 else 1), raised = Some err, procs = tr,
      files = fs\<rparr>"

definition run :: "env \<Rightarrow> proc list \<Rightarrow> step \<Rightarrow> string list \<Rightarrow> proc list \<times> completed" where
  "run e tr s argv =
     (let c = env_run e (length tr) argv
      in (tr @ [\<lparr>proc_step = s, proc_argv = argv, proc_returncode = returncode c\<rparr>], c))"

subsection \<open>Template output (lines 118 to 134)\<close>

definition newline :: char where
  "newline = CHR 0x0A"

text \<open>The classes \<^verbatim>\<open>\s\<close> and \<^verbatim>\<open>\w\<close> of a str pattern, on code points below 256.\<close>

definition is_space :: "char \<Rightarrow> bool" where
  "is_space c =
     (let n = (of_char c :: nat)
      in (9 \<le> n \<and> n \<le> 13) \<or> (28 \<le> n \<and> n \<le> 32) \<or> n = 133 \<or> n = 160)"

definition is_word :: "char \<Rightarrow> bool" where
  "is_word c =
     (let n = (of_char c :: nat)
      in (48 \<le> n \<and> n \<le> 57) \<or> (65 \<le> n \<and> n \<le> 90) \<or> n = 95 \<or> (97 \<le> n \<and> n \<le> 122)
         \<or> n = 170 \<or> n = 178 \<or> n = 179 \<or> n = 181 \<or> (185 \<le> n \<and> n \<le> 186)
         \<or> (188 \<le> n \<and> n \<le> 190) \<or> (192 \<le> n \<and> n \<le> 214) \<or> (216 \<le> n \<and> n \<le> 246)
         \<or> 248 \<le> n)"

text \<open>
  \<^verbatim>\<open>re.match(r'^ARG\s+(\w+)=?(.*)$', line)\<close>, giving groups 1 and 2. No space is a
  word character and no word character is a line feed or \<^verbatim>\<open>=\<close>, so the greedy
  choices are the only ones that can succeed: \<^verbatim>\<open>\s+\<close> takes the whole run of
  spaces, \<^verbatim>\<open>\w+\<close> the whole run of word characters, \<^verbatim>\<open>=?\<close> the
  \<^verbatim>\<open>=\<close> if one follows, \<^verbatim>\<open>.*\<close> everything up to the first line feed,
  and \<^verbatim>\<open>$\<close> holds at the end of the string or before a line feed that ends it.
\<close>

definition re_match_ARG :: "string \<Rightarrow> (string \<times> string) option" where
  "re_match_ARG line =
     (if take 3 line = ''ARG'' then
        (let r1 = drop 3 line;
             ws = takeWhile is_space r1;
             r2 = dropWhile is_space r1;
             g1 = takeWhile is_word r2;
             r3 = dropWhile is_word r2;
             r4 = (if r3 \<noteq> [] \<and> hd r3 = CHR ''='' then tl r3 else r3);
             g2 = takeWhile (\<lambda>c. c \<noteq> newline) r4;
             r5 = dropWhile (\<lambda>c. c \<noteq> newline) r4
         in if ws \<noteq> [] \<and> g1 \<noteq> [] \<and> (r5 = [] \<or> r5 = [newline]) then Some (g1, g2) else None)
      else None)"

text \<open>Lines 130 to 132: the line that is written for a line that was read.\<close>

definition template_line :: "dict \<Rightarrow> string \<Rightarrow> string" where
  "template_line src_replace line =
     (case re_match_ARG line of
        None \<Rightarrow> line
      | Some (g1, g2) \<Rightarrow>
          ''ARG '' @ g1 @ ''='' @ (case dict_get src_replace g1 of Some v \<Rightarrow> v | None \<Rightarrow> g2)
            @ [newline])"

text \<open>The loop of lines 129 to 133; \<open>out\<close> is what has been written so far.\<close>

fun template_loop :: "dict \<Rightarrow> string list \<Rightarrow> string list \<Rightarrow> string list" where
  "template_loop src_replace out [] = out"
| "template_loop src_replace out (line # rest) =
     template_loop src_replace (out @ [template_line src_replace line]) rest"

definition src_path :: "args \<Rightarrow> plan \<Rightarrow> string" where
  "src_path a p =
     (if arg_test a then p_target p @ ''/Dockerfile.test''
      else if arg_s2i a then p_target p @ ''/Dockerfile.s2i''
      else p_dockerfile p)"

definition src_replace :: "args \<Rightarrow> plan \<Rightarrow> dict" where
  "src_replace a p =
     (if arg_test a then [(''base_image'', p_tag p)]
      else if arg_s2i a then [(''base_image'', p_tag p)]
      else p_build_args p)"

text \<open>
  \<^verbatim>\<open>open(path)\<close> and the iteration over the file: the lines, or \<open>None\<close> when
  the open raises.
\<close>

definition read_lines :: "env \<Rightarrow> (nat \<rightharpoonup> string list) \<Rightarrow> string \<Rightarrow> string list option" where
  "read_lines e fs path = (case env_file e path of None \<Rightarrow> None | Some place \<Rightarrow> fs place)"

text \<open>
  Lines 127 to 134. \<^verbatim>\<open>open(args.output, 'w')\<close> comes first: it raises when the
  path cannot be opened, and otherwise creates or empties the file, before the template is
  opened. A template that cannot be read raises in turn, and the output stays empty. A
  template at the place of the output has been emptied by then, so no line is read.
\<close>

definition template_mode :: "args \<Rightarrow> env \<Rightarrow> plan \<Rightarrow> result" where
  "template_mode a e p =
     (case env_file e (the (arg_output a)) of
        None \<Rightarrow> uncaught FileNotFoundError [] (env_fs e)
      | Some out \<Rightarrow>
          (let fs1 = (env_fs e)(out \<mapsto> [])
           in case read_lines e fs1 (src_path a p) of
                None \<Rightarrow> uncaught FileNotFoundError [] fs1
              | Some lines \<Rightarrow>
                  sys_exit 0 [] (fs1(out \<mapsto> template_loop (src_replace a p) [] lines))))"

subsection \<open>Building (lines 136 to 211)\<close>

text \<open>The loop of lines 137 and 138 over the items of the dict.\<close>

fun render_build_args :: "string list \<Rightarrow> dict \<Rightarrow> string list" where
  "render_build_args cmd_args [] = cmd_args"
| "render_build_args cmd_args ((k, v) # items) =
     render_build_args (cmd_args @ [''--build-arg'', k @ ''='' @ v]) items"

text \<open>Lines 136 to 155; the result is \<open>(cmd_base, cmd)\<close>.\<close>

definition build_cmds :: "args \<Rightarrow> env \<Rightarrow> plan \<Rightarrow> string list \<times> string list" where
  "build_cmds a e p =
     (let cmd_args = render_build_args [] (p_build_args p);
          cmd_args_base = cmd_args;
          (cmd_args_base, cmd_args) =
            (if p_dockerfile p \<noteq> []
             then (cmd_args_base @ [''-f'', p_dockerfile p @ ''_indy''],
                   cmd_args @ [''-f'', p_dockerfile p @ ''_von''])
             else (cmd_args_base, cmd_args));
          (cmd_args_base, cmd_args) =
            (if arg_no_cache a
             then (cmd_args_base @ [''--no-cache''], cmd_args @ [''--no-cache''])
             else (cmd_args_base, cmd_args));
          (cmd_args_base, cmd_args) =
            (if arg_squash a
             then (cmd_args_base @ [''--squash''], cmd_args @ [''--squash''])
             else (cmd_args_base, cmd_args));
          cmd_args_base = cmd_args_base @ [''-t'', ''local_indy_base''];
          cmd_args = cmd_args @ [''-t'', p_tag p];
          cmd_args = cmd_args @ [''--build-arg'', ''CACHEBUST='' @ str_int (env_randint e)];
          cmd_args_base = cmd_args_base @ [p_target p];
          cmd_args = cmd_args @ [p_target p]
      in ([''docker'', ''build''] @ cmd_args_base, [''docker'', ''build''] @ cmd_args))"

text \<open>Lines 206 to 211, and the end of the script.\<close>

definition push_stage :: "args \<Rightarrow> env \<Rightarrow> plan \<Rightarrow> proc list \<Rightarrow> result" where
  "push_stage a e p tr =
     (if arg_push a then
        (let (tr, c) = run e tr Push
                         [''docker'', ''push'', if arg_s2i a then p_tag p @ ''-s2i'' else p_tag p]
         in if returncode c \<noteq> 0 then sys_exit 1 tr (env_fs e)
            else sys_exit 0 tr (env_fs e))
      else sys_exit 0 tr (env_fs e))"

text \<open>Lines 191 to 204.\<close>

definition test_stage :: "args \<Rightarrow> env \<Rightarrow> plan \<Rightarrow> proc list \<Rightarrow> result" where
  "test_stage a e p tr =
     (if \<not> arg_dry_run a then
        (if arg_test a \<or> arg_push a then
           (let test_path = p_target p @ ''/Dockerfile.test'';
                test_tag = p_tag p @ ''-test'';
                (tr, c) = run e tr TestBuild
                            [''docker'', ''build'', ''--build-arg'', ''base_image='' @ p_tag p,
                             ''-t'', test_tag, ''-f'', test_path, p_target p]
            in if returncode c \<noteq> 0 then sys_exit 1 tr (env_fs e)
               else
                 (let (tr, c) = run e tr TestRun [''docker'', ''run'', ''--rm'', ''-i'', test_tag]
                  in if returncode c \<noteq> 0 then sys_exit 1 tr (env_fs e)
                     else push_stage a e p tr))
         else push_stage a e p tr)
      else sys_exit 0 tr (env_fs e))"

text \<open>Lines 174 to 189.\<close>

definition s2i_stage :: "args \<Rightarrow> env \<Rightarrow> plan \<Rightarrow> proc list \<Rightarrow> result" where
  "s2i_stage a e p tr =
     (if arg_s2i a then
        (let s2i_tag = p_tag p @ ''-s2i'';
             s2i_cmd = [''docker'', ''build'', ''--build-arg'', ''base_image='' @ p_tag p,
                        ''-t'', s2i_tag, ''-f'', p_target p @ ''/Dockerfile.s2i'', p_target p]
         in if arg_dry_run a then test_stage a e p tr
            else
              (let (tr, c) = run e tr S2iBuild s2i_cmd
               in if returncode c \<noteq> 0 then sys_exit 1 tr (env_fs e)
                  else test_stage a e p tr))
      else test_stage a e p tr)"

text \<open>Lines 136 to 172.\<close>

definition build_mode :: "args \<Rightarrow> env \<Rightarrow> plan \<Rightarrow> result" where
  "build_mode a e p =
     (let (cmd_base, cmd) = build_cmds a e p
      in if arg_dry_run a then s2i_stage a e p []
         else
           (let (tr, c) = run e [] BaseBuild cmd_base
            in if returncode c \<noteq> 0 then sys_exit 1 tr (env_fs e)
               else
                 (let (tr, c) = run e tr MainBuild cmd
                  in if returncode c \<noteq> 0 then sys_exit 1 tr (env_fs e)
                     else
                       (let (tr, proc_sz) =
                              run e tr Inspect
                                [''docker'', ''image'', ''inspect'', p_tag p, ''--format={{.Size}}'']
                        in case stdout_int proc_sz of
                             None \<Rightarrow> uncaught ValueError tr (env_fs e)
                           | Some size_bytes \<Rightarrow> s2i_stage a e p tr))))"

text \<open>The whole script.\<close>

definition main :: "args \<Rightarrow> env \<Rightarrow> result" where
  "main a e =
     (case resolve a of
        Inl err \<Rightarrow> uncaught err [] (env_fs e)
      | Inr p \<Rightarrow> if truthy (arg_output a) then template_mode a e p else build_mode a e p)"

subsection \<open>The merge as the specification words it\<close>

text \<open>
  The derived arguments: python version, tag name, tag version, and the release flag
  unless the build is a debug build.
\<close>

definition derived_spec :: "args \<Rightarrow> ver_entry \<Rightarrow> string \<Rightarrow> string \<Rightarrow> dict" where
  "derived_spec a ver tag_name tag_version =
     [(''python_version'', py_ver a ver), (''tag_name'', tag_name), (''tag_version'', tag_version)]
       @ (if arg_debug a then [] else [(''indy_build_flags'', ''--release'')])"

text \<open>
  Precedence: an override wins over a derived argument, which wins over a catalog
  argument; within each group the last write to a key wins.
\<close>

definition merged_spec :: "dict \<Rightarrow> dict \<Rightarrow> dict \<Rightarrow> string \<Rightarrow> string option" where
  "merged_spec catalog derived overrides k =
     (case map_of (rev overrides) k of
        Some v \<Rightarrow> Some v
      | None \<Rightarrow>
          (case map_of (rev derived) k of
             Some v \<Rightarrow> Some v
           | None \<Rightarrow> map_of (rev catalog) k))"

subsection \<open>The failure policy as the specification words it\<close>

text \<open>
  A delegated step that failed: one of the six steps whose return code the script tests,
  with a return code other than zero.
\<close>

definition failed :: "proc \<Rightarrow> bool" where
  "failed pr =
     (proc_step pr \<in> {BaseBuild, MainBuild, S2iBuild, TestBuild, TestRun, Push}
      \<and> proc_returncode pr \<noteq> 0)"

text \<open>
  The recorded return codes are those the environment gave, call by call.
\<close>

definition recorded :: "env \<Rightarrow> proc list \<Rightarrow> bool" where
  "recorded e tr =
     (\<forall>i<length tr. proc_returncode (tr ! i) = returncode (env_run e i (proc_argv (tr ! i))))"

text \<open>
  Fail-stop: a failed step is the last step of the run and the exit status is then 1; an
  exit status 0 means that no step failed.
\<close>

definition fail_stop :: "env \<Rightarrow> result \<Rightarrow> bool" where
  "fail_stop e r =
     (recorded e (procs r)
      \<and> (\<forall>i<length (procs r). failed (procs r ! i) \<longrightarrow> Suc i = length (procs r) \<and> exit_code r = 1)
      \<and> (exit_code r = 0 \<longrightarrow> (\<forall>pr\<in>set (procs r). \<not> failed pr)))"

text \<open>
  The state between two steps: the return codes are recorded as given and no step has failed.
\<close>

definition clean :: "env \<Rightarrow> proc list \<Rightarrow> bool" where
  "clean e tr = (recorded e tr \<and> (\<forall>pr\<in>set tr. \<not> failed pr))"

section \<open>Properties\<close>

subsection \<open>Resolution\<close>

text \<open>
  Claim C1. The command line \<^verbatim>\<open>make_image.py 1.6\<close>, with no option, resolves
  to the two URLs of the catalog entry \<^verbatim>\<open>1.6\<close>, then \<open>python_version = 3.5.5\<close>,
  the tag name and version, and \<open>indy_build_flags = --release\<close>; the tag is
  \<^verbatim>\<open>bcgovimages/von-image:py35-1.6-11\<close>.
\<close>

theorem version_1_6_defaults:
  "map_of VERSIONS ''1.6'' =
     Some \<lparr>ver_version = Some ''1.6-11'', ver_path = None, ver_python_version = None,
           ver_args =
             [(''indy_sdk_url'',
               ''https://codeload.github.com/hyperledger/indy-sdk/tar.gz/5a37407baaf756b3c4f5cac802717dc4a2bd1660''),
              (''indy_crypto_url'',
               ''https://codeload.github.com/hyperledger/indy-crypto/tar.gz/a2864642430064c6f00902e9b999cc6356eed9f1'')]\<rparr>
   \<and> resolve (default_args ''1.6'') =
     Inr \<lparr>p_target = ''1.6'', p_dockerfile = ''1.6/Dockerfile.ubuntu'',
          p_tag = ''bcgovimages/von-image:py35-1.6-11'',
          p_build_args =
            [(''indy_sdk_url'',
              ''https://codeload.github.com/hyperledger/indy-sdk/tar.gz/5a37407baaf756b3c4f5cac802717dc4a2bd1660''),
             (''indy_crypto_url'',
              ''https://codeload.github.com/hyperledger/indy-crypto/tar.gz/a2864642430064c6f00902e9b999cc6356eed9f1''),
             (''python_version'', ''3.5.5''),
             (''tag_name'', ''bcgovimages/von-image''),
             (''tag_version'', ''py35-1.6-11''),
             (''indy_build_flags'', ''--release'')]\<rparr>"
  by (simp add: resolve_def default_args_def VERSIONS_def resolve_tag_def build_args_def
      truthy_def py_ver_def py_or_def PY_35_VERSION_def DEFAULT_NAME_def target_def
      dockerfile_def Let_def)

text \<open>
  Claim C2. With no \<^verbatim>\<open>--tag\<close> in effect (none given, or an empty one), the tag is
  the name, a colon, \<^verbatim>\<open>py\<close>, the slices \<^verbatim>\<open>[0:1]\<close> and \<^verbatim>\<open>[2:3]\<close>
  of the resolved python version, a dash, the \<^verbatim>\<open>version\<close> field of the catalog
  entry or else the version key, and \<^verbatim>\<open>-debug\<close> exactly when the debug flag is
  set. The two slices are the first and the third character of a python version of three
  characters or more. Every resolution that succeeds carries this tag.
\<close>

theorem derived_tag_format:
  assumes "map_of VERSIONS (arg_version a) = Some ver" and "\<not> truthy (arg_tag a)"
  shows "\<exists>tag_version.
           resolve_tag a ver = Inr (arg_name a @ '':'' @ tag_version, arg_name a, tag_version)
         \<and> tag_version =
             ''py'' @ take 1 (py_ver a ver) @ take 1 (drop 2 (py_ver a ver)) @ ''-''
               @ (case ver_version ver of Some l \<Rightarrow> l | None \<Rightarrow> arg_version a)
               @ (if arg_debug a then ''-debug'' else [])
         \<and> (3 \<le> length (py_ver a ver) \<longrightarrow>
                take 1 (py_ver a ver) @ take 1 (drop 2 (py_ver a ver))
                  = [py_ver a ver ! 0, py_ver a ver ! 2])
         \<and> (\<forall>p. resolve a = Inr p \<longrightarrow> p_tag p = arg_name a @ '':'' @ tag_version)"
proof -
  let ?pv = "py_ver a ver"
  let ?tv = "''py'' @ take 1 ?pv @ take 1 (drop 2 ?pv) @ ''-''
               @ (case ver_version ver of Some l \<Rightarrow> l | None \<Rightarrow> arg_version a)
               @ (if arg_debug a then ''-debug'' else [])"
  have tag: "resolve_tag a ver = Inr (arg_name a @ '':'' @ ?tv, arg_name a, ?tv)"
    using assms(2) by (simp add: resolve_tag_def Let_def)
  have chars: "3 \<le> length ?pv \<longrightarrow> take 1 ?pv @ take 1 (drop 2 ?pv) = [?pv ! 0, ?pv ! 2]"
    by (cases ?pv; cases "tl ?pv"; cases "tl (tl ?pv)") auto
  have plan: "\<forall>p. resolve a = Inr p \<longrightarrow> p_tag p = arg_name a @ '':'' @ ?tv"
    using assms(1) tag by (auto simp: resolve_def split: sum.splits)
  from tag chars plan show ?thesis by blast
qed

theorem derived_tag_format_witness:
  "\<exists>tag_version.
     resolve_tag (default_args ''1.0std''\<lparr>arg_python := Some ''3.6.7'', arg_debug := True\<rparr>)
       \<lparr>ver_version = None, ver_path = Some ''1.0'', ver_python_version = None,
        ver_args =
          [(''indy_sdk_url'',
            ''https://codeload.github.com/hyperledger/indy-sdk/tar.gz/e0ef8889e9f3b9abd706628fe259f56501d492d9''),
           (''indy_crypto_url'',
            ''https://codeload.github.com/hyperledger/indy-crypto/tar.gz/96c79b36c5056eade5a8e3bae418f5a733cc8d8d'')]\<rparr>
       = Inr (''bcgovimages/von-image:'' @ tag_version, ''bcgovimages/von-image'', tag_version)
   \<and> tag_version = ''py36-1.0std-debug''"
proof -
  let ?a = "default_args ''1.0std''\<lparr>arg_python := Some ''3.6.7'', arg_debug := True\<rparr>"
  let ?ver = "\<lparr>ver_version = None, ver_path = Some ''1.0'', ver_python_version = None,
        ver_args =
          [(''indy_sdk_url'',
            ''https://codeload.github.com/hyperledger/indy-sdk/tar.gz/e0ef8889e9f3b9abd706628fe259f56501d492d9''),
           (''indy_crypto_url'',
            ''https://codeload.github.com/hyperledger/indy-crypto/tar.gz/96c79b36c5056eade5a8e3bae418f5a733cc8d8d'')]\<rparr>"
  have h1: "map_of VERSIONS (arg_version ?a) = Some ?ver"
    by (simp add: VERSIONS_def default_args_def)
  have h2: "\<not> truthy (arg_tag ?a)"
    by (simp add: truthy_def default_args_def)
  show ?thesis
    using derived_tag_format [OF h1 h2]
    by (simp add: default_args_def py_ver_def py_or_def DEFAULT_NAME_def)
qed

subsection \<open>The dict operations\<close>

lemma map_of_dict_setitem: "map_of (dict_setitem k v d) = (map_of d)(k \<mapsto> v)"
  by (induction d) (auto simp: fun_eq_iff)

lemma keys_dict_setitem: "fst ` set (dict_setitem k v d) = insert k (fst ` set d)"
  by (induction d) (force split: if_splits)+

lemma distinct_dict_setitem: "distinct (map fst d) \<Longrightarrow> distinct (map fst (dict_setitem k v d))"
  by (induction d) (auto simp: keys_dict_setitem)

lemma map_of_dict_update: "map_of (dict_update d other) = map_of d ++ map_of (rev other)"
  by (induction d other rule: dict_update.induct) (auto simp: map_of_dict_setitem fun_eq_iff map_add_def split: option.splits)

lemma distinct_dict_update: "distinct (map fst d) \<Longrightarrow> distinct (map fst (dict_update d other))"
  by (induction d other rule: dict_update.induct) (auto simp: distinct_dict_setitem)

lemma add_build_args_Inr:
  "add_build_args d toks = Inr d' \<Longrightarrow>
     \<exists>overrides. map (\<lambda>tok. unpack2 (py_split (CHR ''='') 2 tok)) toks = map Inr overrides
       \<and> map_of d' = map_of d ++ map_of (rev overrides)
       \<and> (distinct (map fst d) \<longrightarrow> distinct (map fst d'))"
proof (induction toks arbitrary: d)
  case Nil
  then show ?case by simp
next
  case (Cons tok toks)
  from Cons.prems obtain key val where
    kv: "unpack2 (py_split (CHR ''='') 2 tok) = Inr (key, val)"
    and rest: "add_build_args (dict_setitem key val d) toks = Inr d'"
    by (auto split: sum.splits)
  from Cons.IH [OF rest] obtain ovs where
    ovs: "map (\<lambda>tok. unpack2 (py_split (CHR ''='') 2 tok)) toks = map Inr ovs"
    and m: "map_of d' = map_of (dict_setitem key val d) ++ map_of (rev ovs)"
    and dis: "distinct (map fst (dict_setitem key val d)) \<longrightarrow> distinct (map fst d')"
    by blast
  have "map (\<lambda>tok. unpack2 (py_split (CHR ''='') 2 tok)) (tok # toks) = map Inr ((key, val) # ovs)"
    using kv ovs by simp
  moreover have "map_of d' = map_of d ++ map_of (rev ((key, val) # ovs))"
    using m by (auto simp: map_of_dict_setitem fun_eq_iff map_add_def split: option.splits)
  moreover have "distinct (map fst d) \<longrightarrow> distinct (map fst d')"
    using dis distinct_dict_setitem by blast
  ultimately show ?case by blast
qed

lemma map_of_rev_last_occurrence:
  assumes "i < length xs"
    and "\<forall>j. i < j \<and> j < length xs \<longrightarrow> fst (xs ! j) \<noteq> fst (xs ! i)"
  shows "map_of (rev xs) (fst (xs ! i)) = Some (snd (xs ! i))"
proof -
  have split: "xs = take i xs @ xs ! i # drop (Suc i) xs"
    using assms(1) by (simp add: id_take_nth_drop)
  have "fst (xs ! i) \<notin> fst ` set (drop (Suc i) xs)"
  proof
    assume "fst (xs ! i) \<in> fst ` set (drop (Suc i) xs)"
    then obtain y where y: "y \<in> set (drop (Suc i) xs)" and fy: "fst y = fst (xs ! i)" by force
    from y obtain n where n: "n < length (drop (Suc i) xs)" and yn: "drop (Suc i) xs ! n = y"
      by (auto simp: in_set_conv_nth)
    have "xs ! (Suc i + n) = y" using n yn by simp
    moreover have "i < Suc i + n \<and> Suc i + n < length xs" using n by auto
    ultimately show False using assms(2) fy by metis
  qed
  then have none: "map_of (rev (drop (Suc i) xs)) (fst (xs ! i)) = None"
    by (simp add: map_of_eq_None_iff)
  have "rev xs = rev (drop (Suc i) xs) @ xs ! i # rev (take i xs)"
    by (subst split) simp
  then have "map_of (rev xs) (fst (xs ! i)) = map_of (rev (drop (Suc i) xs) @ xs ! i # rev (take i xs)) (fst (xs ! i))"
    by simp
  also have "\<dots> = Some (snd (xs ! i))"
    using none by (cases "xs ! i") (simp add: map_add_def)
  finally show ?thesis .
qed

lemma py_split_2:
  "py_split sep 2 s =
     (if sep \<in> set s then
        takeWhile (\<lambda>c. c \<noteq> sep) s #
          (let r = tl (dropWhile (\<lambda>c. c \<noteq> sep) s)
           in if sep \<in> set r
              then [takeWhile (\<lambda>c. c \<noteq> sep) r, tl (dropWhile (\<lambda>c. c \<noteq> sep) r)]
              else [r])
      else [s])"
  by (simp add: numeral_2_eq_2 Let_def)

subsection \<open>The merged build arguments\<close>

text \<open>
  Claim C3. The mapping is written in the order catalog arguments, derived arguments,
  \<^verbatim>\<open>--build-arg\<close> tokens, and a later write to a key replaces the earlier
  one: when the merge succeeds every token has parsed into a pair, and looking a key up in
  the result is looking it up in the overrides, then in the derived arguments, then in the
  catalog arguments, the last write first. The keys of the result are distinct. In
  particular the value of a key given in several tokens is that of the last such token.
\<close>

theorem build_args_precedence:
  assumes "build_args a ver tag_name tag_version = Inr d"
  shows "\<exists>overrides.
           map (\<lambda>tok. unpack2 (py_split (CHR ''='') 2 tok))
               (case arg_build_arg a of None \<Rightarrow> [] | Some toks \<Rightarrow> toks) = map Inr overrides
         \<and> (\<forall>k. dict_get d k =
                  merged_spec (ver_args ver) (derived_spec a ver tag_name tag_version) overrides k)
         \<and> distinct (map fst d)
         \<and> (\<forall>i<length overrides.
               (\<forall>j. i < j \<and> j < length overrides \<longrightarrow> fst (overrides ! j) \<noteq> fst (overrides ! i))
               \<longrightarrow> dict_get d (fst (overrides ! i)) = Some (snd (overrides ! i)))"
proof -
  define d0 where "d0 =
     (let d = dict_update [] (ver_args ver);
          d = dict_setitem ''python_version'' (py_ver a ver) d;
          d = dict_setitem ''tag_name'' tag_name d;
          d = dict_setitem ''tag_version'' tag_version d;
          d = (if \<not> arg_debug a then dict_setitem ''indy_build_flags'' ''--release'' d else d)
      in d)"
  let ?toks = "case arg_build_arg a of None \<Rightarrow> [] | Some toks \<Rightarrow> toks"
  have run: "add_build_args d0 ?toks = Inr d"
    using assms by (auto simp: build_args_def d0_def Let_def split: option.splits)
  have d0_map: "map_of d0 k =
      (case map_of (rev (derived_spec a ver tag_name tag_version)) k of
         Some v \<Rightarrow> Some v | None \<Rightarrow> map_of (rev (ver_args ver)) k)" for k
    by (simp add: d0_def Let_def derived_spec_def map_of_dict_setitem map_of_dict_update)
  have d0_dis: "distinct (map fst d0)"
    by (simp add: d0_def Let_def distinct_dict_setitem distinct_dict_update)
  from add_build_args_Inr [OF run] obtain ovs where
    ovs: "map (\<lambda>tok. unpack2 (py_split (CHR ''='') 2 tok)) ?toks = map Inr ovs"
    and m: "map_of d = map_of d0 ++ map_of (rev ovs)"
    and dis: "distinct (map fst d0) \<longrightarrow> distinct (map fst d)"
    by blast
  have merged: "dict_get d k = merged_spec (ver_args ver) (derived_spec a ver tag_name tag_version) ovs k"
    for k
    by (simp add: dict_get_def m map_add_def merged_spec_def d0_map split: option.splits)
  have last: "dict_get d (fst (ovs ! i)) = Some (snd (ovs ! i))"
    if "i < length ovs" "\<forall>j. i < j \<and> j < length ovs \<longrightarrow> fst (ovs ! j) \<noteq> fst (ovs ! i)" for i
    using map_of_rev_last_occurrence [OF that] by (simp add: dict_get_def m map_add_def)
  from ovs merged d0_dis dis last show ?thesis by blast
qed

theorem build_args_precedence_witness:
  "build_args
     (default_args ''1.5''\<lparr>arg_build_arg := Some [''KEY=one'', ''KEY=two'', ''tag_name=mine'']\<rparr>)
     \<lparr>ver_version = Some ''1.5-0'', ver_path = None, ver_python_version = None,
      ver_args = [(''indy_sdk_url'', ''sdk''), (''indy_crypto_url'', ''crypto'')]\<rparr>
     ''bcgovimages/von-image'' ''py35-1.5-0''
   = Inr [(''indy_sdk_url'', ''sdk''), (''indy_crypto_url'', ''crypto''),
          (''python_version'', ''3.5.5''), (''tag_name'', ''mine''),
          (''tag_version'', ''py35-1.5-0''), (''indy_build_flags'', ''--release''),
          (''KEY'', ''two'')]
   \<and> merged_spec [(''indy_sdk_url'', ''sdk''), (''indy_crypto_url'', ''crypto'')]
         [(''python_version'', ''3.5.5''), (''tag_name'', ''bcgovimages/von-image''),
          (''tag_version'', ''py35-1.5-0''), (''indy_build_flags'', ''--release'')]
         [(''KEY'', ''one''), (''KEY'', ''two''), (''tag_name'', ''mine'')] ''KEY''
       = Some ''two''"
proof -
  let ?a = "default_args ''1.5''\<lparr>arg_build_arg := Some [''KEY=one'', ''KEY=two'', ''tag_name=mine'']\<rparr>"
  let ?ver = "\<lparr>ver_version = Some ''1.5-0'', ver_path = None, ver_python_version = None,
      ver_args = [(''indy_sdk_url'', ''sdk''), (''indy_crypto_url'', ''crypto'')]\<rparr>"
  let ?d = "[(''indy_sdk_url'', ''sdk''), (''indy_crypto_url'', ''crypto''),
          (''python_version'', ''3.5.5''), (''tag_name'', ''mine''),
          (''tag_version'', ''py35-1.5-0''), (''indy_build_flags'', ''--release''),
          (''KEY'', ''two'')]"
  have h: "build_args ?a ?ver ''bcgovimages/von-image'' ''py35-1.5-0'' = Inr ?d"
    by (simp add: build_args_def default_args_def py_ver_def py_or_def PY_35_VERSION_def
        Let_def py_split_2 unpack2_def)
  from build_args_precedence [OF h] obtain overrides where
    ovs: "map (\<lambda>tok. unpack2 (py_split (CHR ''='') 2 tok))
            (case arg_build_arg ?a of None \<Rightarrow> [] | Some toks \<Rightarrow> toks) = map Inr overrides"
    and m: "\<forall>k. dict_get ?d k =
              merged_spec (ver_args ?ver)
                (derived_spec ?a ?ver ''bcgovimages/von-image'' ''py35-1.5-0'') overrides k"
    by blast
  from ovs [symmetric] have "overrides = [(''KEY'', ''one''), (''KEY'', ''two''), (''tag_name'', ''mine'')]"
    by (auto simp: default_args_def py_split_2 unpack2_def map_eq_Cons_conv)
  with m have "dict_get ?d ''KEY''
      = merged_spec [(''indy_sdk_url'', ''sdk''), (''indy_crypto_url'', ''crypto'')]
         [(''python_version'', ''3.5.5''), (''tag_name'', ''bcgovimages/von-image''),
          (''tag_version'', ''py35-1.5-0''), (''indy_build_flags'', ''--release'')]
         [(''KEY'', ''one''), (''KEY'', ''two''), (''tag_name'', ''mine'')] ''KEY''"
    by (simp add: derived_spec_def default_args_def py_ver_def py_or_def PY_35_VERSION_def)
  moreover have "dict_get ?d ''KEY'' = Some ''two''"
    by (simp add: dict_get_def)
  ultimately show ?thesis using h by simp
qed

subsection \<open>Failures of the resolution\<close>

lemma unpack2_error: "unpack2 parts = Inl err \<Longrightarrow> err = ValueError"
  by (auto simp: unpack2_def split: list.splits)

lemma py_split_no_sep: "sep \<notin> set s \<Longrightarrow> py_split sep n s = [s]"
  by (cases n) auto

lemma unpack2_no_sep: "sep \<notin> set s \<Longrightarrow> unpack2 (py_split sep n s) = Inl ValueError"
  by (simp add: py_split_no_sep unpack2_def)

lemma add_build_args_error: "add_build_args d toks = Inl err \<Longrightarrow> err = ValueError"
  by (induction toks arbitrary: d) (auto split: sum.splits dest: unpack2_error)

lemma add_build_args_malformed:
  "\<exists>tok\<in>set toks. CHR ''='' \<notin> set tok \<Longrightarrow> add_build_args d toks = Inl ValueError"
proof (induction toks arbitrary: d)
  case Nil
  then show ?case by simp
next
  case (Cons tok toks)
  show ?case
  proof (cases "unpack2 (py_split (CHR ''='') 2 tok)")
    case (Inl err)
    then show ?thesis using unpack2_error [OF Inl] by simp
  next
    case (Inr kv)
    then have "CHR ''='' \<in> set tok"
      using unpack2_no_sep [of "CHR ''=''" tok 2] by auto
    with Cons.prems have "\<exists>t\<in>set toks. CHR ''='' \<notin> set t" by auto
    from Cons.IH [OF this] Inr show ?thesis by (simp split: prod.splits)
  qed
qed

lemma resolve_tag_error: "resolve_tag a ver = Inl err \<Longrightarrow> err = ValueError"
  by (auto simp: resolve_tag_def Let_def split: if_splits sum.splits dest: unpack2_error)

lemma resolve_malformed:
  assumes "map_of VERSIONS (arg_version a) = Some ver"
    and "arg_build_arg a = Some toks" and "\<exists>tok\<in>set toks. CHR ''='' \<notin> set tok"
  shows "resolve a = Inl ValueError"
proof (cases "resolve_tag a ver")
  case (Inl err)
  then show ?thesis using assms(1) resolve_tag_error [OF Inl] by (simp add: resolve_def)
next
  case (Inr t)
  obtain tag tag_name tag_version where t: "t = (tag, tag_name, tag_version)"
    by (cases t) auto
  have "build_args a ver tag_name tag_version = Inl ValueError"
    using assms(2) add_build_args_malformed [OF assms(3)] by (simp add: build_args_def Let_def)
  then show ?thesis using assms(1) Inr t by (simp add: resolve_def)
qed

text \<open>
  Claim C8. A version that is not a key of the catalog ends the run in the argument parser
  (exit status 2), and, for a version of the catalog, a \<^verbatim>\<open>--build-arg\<close> token
  with no \<^verbatim>\<open>=\<close> ends it with an uncaught \<^verbatim>\<open>ValueError\<close> (exit
  status 1). In both cases no child process has been run and no file has been touched.
\<close>

theorem resolution_failures_fatal:
  "(map_of VERSIONS (arg_version a) = None \<longrightarrow>
      main a e = \<lparr>exit_code = 2, raised = Some ArgparseError, procs = [], files = env_fs e\<rparr>)
   \<and> (map_of VERSIONS (arg_version a) \<noteq> None
        \<and> (\<exists>toks. arg_build_arg a = Some toks \<and> (\<exists>tok\<in>set toks. CHR ''='' \<notin> set tok)) \<longrightarrow>
      main a e = \<lparr>exit_code = 1, raised = Some ValueError, procs = [], files = env_fs e\<rparr>)"
proof (intro conjI impI)
  assume "map_of VERSIONS (arg_version a) = None"
  then show "main a e = \<lparr>exit_code = 2, raised = Some ArgparseError, procs = [], files = env_fs e\<rparr>"
    by (simp add: main_def resolve_def uncaught_def)
next
  assume h: "map_of VERSIONS (arg_version a) \<noteq> None
        \<and> (\<exists>toks. arg_build_arg a = Some toks \<and> (\<exists>tok\<in>set toks. CHR ''='' \<notin> set tok))"
  then obtain ver toks where "map_of VERSIONS (arg_version a) = Some ver"
    and "arg_build_arg a = Some toks" and "\<exists>tok\<in>set toks. CHR ''='' \<notin> set tok"
    by auto
  from resolve_malformed [OF this]
  show "main a e = \<lparr>exit_code = 1, raised = Some ValueError, procs = [], files = env_fs e\<rparr>"
    by (simp add: main_def uncaught_def)
qed

theorem resolution_failures_fatal_witness:
  "main (default_args ''2.0'')
     \<lparr>env_file = (\<lambda>path. None), env_fs = Map.empty, env_randint = 123456,
      env_run = (\<lambda>n argv. \<lparr>returncode = 0, stdout_int = Some 1\<rparr>)\<rparr>
     = \<lparr>exit_code = 2, raised = Some ArgparseError, procs = [], files = Map.empty\<rparr>
   \<and> main (default_args ''1.6''\<lparr>arg_build_arg := Some [''FOO'']\<rparr>)
     \<lparr>env_file = (\<lambda>path. None), env_fs = Map.empty, env_randint = 123456,
      env_run = (\<lambda>n argv. \<lparr>returncode = 0, stdout_int = Some 1\<rparr>)\<rparr>
     = \<lparr>exit_code = 1, raised = Some ValueError, procs = [], files = Map.empty\<rparr>"
proof -
  let ?e = "\<lparr>env_file = (\<lambda>path. None), env_fs = Map.empty, env_randint = 123456,
      env_run = (\<lambda>n argv. \<lparr>returncode = 0, stdout_int = Some 1\<rparr>)\<rparr>"
  have h1: "map_of VERSIONS (arg_version (default_args ''2.0'')) = None"
    by (simp add: VERSIONS_def default_args_def)
  have h2: "map_of VERSIONS (arg_version (default_args ''1.6''\<lparr>arg_build_arg := Some [''FOO'']\<rparr>)) \<noteq> None
      \<and> (\<exists>toks. arg_build_arg (default_args ''1.6''\<lparr>arg_build_arg := Some [''FOO'']\<rparr>) = Some toks
            \<and> (\<exists>tok\<in>set toks. CHR ''='' \<notin> set tok))"
    by (simp add: VERSIONS_def default_args_def)
  show ?thesis
    using resolution_failures_fatal [of "default_args ''2.0''" ?e] h1
      resolution_failures_fatal [of "default_args ''1.6''\<lparr>arg_build_arg := Some [''FOO'']\<rparr>" ?e] h2
    by simp
qed

lemma dropWhile_first_sep:
  assumes "sep \<in> set s"
  shows "\<exists>pre post. s = pre @ sep # post \<and> sep \<notin> set pre
           \<and> takeWhile (\<lambda>c. c \<noteq> sep) s = pre \<and> tl (dropWhile (\<lambda>c. c \<noteq> sep) s) = post"
proof -
  from split_list_first [OF assms] obtain pre post where
    s: "s = pre @ sep # post" and n: "sep \<notin> set pre" by blast
  have ne: "x \<noteq> sep" if "x \<in> set pre" for x
    using that n by auto
  have "takeWhile (\<lambda>c. c \<noteq> sep) s = pre" "dropWhile (\<lambda>c. c \<noteq> sep) s = sep # post"
    by (simp_all add: s ne)
  with s n show ?thesis by auto
qed

lemma one_separator_accepted:
  assumes "sep \<notin> set k" and "sep \<notin> set v"
  shows "unpack2 (py_split sep 2 (k @ sep # v)) = Inr (k, v)"
proof -
  have ne: "x \<noteq> sep" if "x \<in> set k" for x
    using that assms(1) by auto
  have "takeWhile (\<lambda>c. c \<noteq> sep) (k @ sep # v) = k"
    "dropWhile (\<lambda>c. c \<noteq> sep) (k @ sep # v) = sep # v"
    by (simp_all add: ne)
  then show ?thesis
    using assms(2) by (simp add: py_split_2 unpack2_def)
qed

lemma two_separators_rejected:
  "unpack2 (py_split sep 2 (k @ sep # v @ sep # w)) = Inl ValueError"
proof -
  let ?s = "k @ sep # v @ sep # w"
  have "sep \<in> set ?s" by simp
  from dropWhile_first_sep [OF this] obtain pre post where
    s: "?s = pre @ sep # post" and n: "sep \<notin> set pre"
    and t: "takeWhile (\<lambda>c. c \<noteq> sep) ?s = pre"
    and d: "tl (dropWhile (\<lambda>c. c \<noteq> sep) ?s) = post"
    by blast
  have "sep \<in> set post"
  proof (rule ccontr)
    assume "sep \<notin> set post"
    then have "count_list ?s sep = 1"
      using n by (subst s) simp
    moreover have "count_list ?s sep \<ge> 2" by simp
    ultimately show False by simp
  qed
  then show ?thesis
    using t d by (simp add: py_split_2 unpack2_def Let_def)
qed

text \<open>
  Claim C7. With a split count of 2 a token holding two separators is cut into three
  parts, and unpacking three parts into two targets raises: \<^verbatim>\<open>--build-arg FOO=a=b\<close>
  and \<^verbatim>\<open>--tag img:1.0:x\<close> end the run with \<^verbatim>\<open>ValueError\<close> instead of
  being read as \<open>FOO\<close> with value \<open>a=b\<close> and \<open>img\<close> with version \<open>1.0:x\<close>.
  So does every string in which the separator occurs twice or more; only a string with
  exactly one separator unpacks (\<open>one_separator_accepted\<close>).
\<close>

theorem separator_in_value_raises:
  "py_split (CHR ''='') 2 ''FOO=a=b'' = [''FOO'', ''a'', ''b'']
   \<and> resolve (default_args ''1.6''\<lparr>arg_build_arg := Some [''FOO=a=b'']\<rparr>) = Inl ValueError
   \<and> py_split (CHR '':'') 2 ''img:1.0:x'' = [''img'', ''1.0'', ''x'']
   \<and> resolve (default_args ''1.6''\<lparr>arg_tag := Some ''img:1.0:x''\<rparr>) = Inl ValueError
   \<and> (\<forall>e. main (default_args ''1.6''\<lparr>arg_build_arg := Some [''FOO=a=b'']\<rparr>) e
          = \<lparr>exit_code = 1, raised = Some ValueError, procs = [], files = env_fs e\<rparr>)
   \<and> (\<forall>sep k v w. unpack2 (py_split sep 2 (k @ sep # v @ sep # w)) = Inl ValueError)"
proof -
  have "py_split (CHR ''='') 2 ''FOO=a=b'' = [''FOO'', ''a'', ''b'']"
    and "py_split (CHR '':'') 2 ''img:1.0:x'' = [''img'', ''1.0'', ''x'']"
    by (simp_all add: py_split_2)
  moreover have "resolve (default_args ''1.6''\<lparr>arg_build_arg := Some [''FOO=a=b'']\<rparr>) = Inl ValueError"
    and "resolve (default_args ''1.6''\<lparr>arg_tag := Some ''img:1.0:x''\<rparr>) = Inl ValueError"
    by (simp_all add: resolve_def default_args_def VERSIONS_def resolve_tag_def
        build_args_def truthy_def py_ver_def py_or_def PY_35_VERSION_def DEFAULT_NAME_def
        target_def dockerfile_def Let_def py_split_2 unpack2_def)
  moreover from this have "main (default_args ''1.6''\<lparr>arg_build_arg := Some [''FOO=a=b'']\<rparr>) e
          = \<lparr>exit_code = 1, raised = Some ValueError, procs = [], files = env_fs e\<rparr>" for e
    by (simp add: main_def uncaught_def)
  ultimately show ?thesis
    using two_separators_rejected by blast
qed

subsection \<open>Template output\<close>

lemma template_loop_map: "template_loop r out ls = out @ map (template_line r) ls"
  by (induction ls arbitrary: out) auto

lemma template_mode_procs: "procs (template_mode a e p) = []"
  by (simp add: template_mode_def Let_def sys_exit_def uncaught_def split: option.splits)

lemma template_mode_written:
  assumes "env_file e (the (arg_output a)) = Some out"
    and "read_lines e ((env_fs e)(out \<mapsto> [])) (src_path a p) = Some lines"
  shows "template_mode a e p =
           \<lparr>exit_code = 0, raised = None, procs = [],
            files = (env_fs e)(out \<mapsto> map (template_line (src_replace a p)) lines)\<rparr>"
  using assms by (simp add: template_mode_def Let_def sys_exit_def template_loop_map)

text \<open>The run ends with status 0 only if the output was opened and the template read.\<close>

lemma template_mode_exit_0:
  assumes "exit_code (template_mode a e p) = 0"
  shows "\<exists>out lines. env_file e (the (arg_output a)) = Some out
           \<and> read_lines e ((env_fs e)(out \<mapsto> [])) (src_path a p) = Some lines"
  using assms
  by (auto simp: template_mode_def Let_def sys_exit_def uncaught_def split: option.splits)

text \<open>
  An output path that cannot be opened: nothing is written. A template at the place of
  the output: it is emptied before it is read, and the output stays empty.
\<close>

lemma template_mode_no_output:
  "env_file e (the (arg_output a)) = None \<Longrightarrow>
   template_mode a e p =
     \<lparr>exit_code = 1, raised = Some FileNotFoundError, procs = [], files = env_fs e\<rparr>"
  by (simp add: template_mode_def uncaught_def)

lemma template_mode_onto_itself:
  assumes "env_file e (the (arg_output a)) = Some place"
    and "env_file e (src_path a p) = Some place"
  shows "template_mode a e p =
           \<lparr>exit_code = 0, raised = None, procs = [], files = (env_fs e)(place \<mapsto> [])\<rparr>"
  using assms by (simp add: template_mode_def read_lines_def Let_def sys_exit_def)

lemma word_not_space: "is_word c \<Longrightarrow> \<not> is_space c"
  by (auto simp: is_word_def is_space_def Let_def)

lemma re_match_ARG_plain:
  assumes "name \<noteq> []" and "\<forall>c\<in>set name. is_word c" and "newline \<notin> set dflt"
  shows "re_match_ARG (''ARG '' @ name @ ''='' @ dflt @ [newline]) = Some (name, dflt)"
proof -
  obtain c cs where name: "name = c # cs" using assms(1) by (cases name) auto
  have c: "\<not> is_space c" using assms(2) name word_not_space by auto
  have sp: "is_space (CHR '' '')" by (simp add: is_space_def)
  have eq: "\<not> is_word (CHR ''='')" by (simp add: is_word_def)
  let ?r2 = "name @ ''='' @ dflt @ [newline]"
  have ws: "takeWhile is_space ('' '' @ ?r2) = '' ''" "dropWhile is_space ('' '' @ ?r2) = ?r2"
    using c sp by (simp_all add: name)
  have g1: "takeWhile is_word ?r2 = name" "dropWhile is_word ?r2 = ''='' @ dflt @ [newline]"
    using assms(2) eq by simp_all
  have nn: "x \<noteq> newline" if "x \<in> set dflt" for x
    using that assms(3) by auto
  have g2: "takeWhile (\<lambda>c. c \<noteq> newline) (dflt @ [newline]) = dflt"
    "dropWhile (\<lambda>c. c \<noteq> newline) (dflt @ [newline]) = [newline]"
    by (simp_all add: nn)
  have "take 3 (''ARG '' @ ?r2) = ''ARG''" "drop 3 (''ARG '' @ ?r2) = '' '' @ ?r2" by simp_all
  moreover have "CHR ''='' \<noteq> newline" by (simp add: newline_def)
  ultimately show ?thesis
    using ws g1 g2 assms(1) by (simp add: re_match_ARG_def Let_def)
qed

lemmas resolve_eval =
  resolve_def default_args_def VERSIONS_def resolve_tag_def build_args_def
  truthy_def py_ver_def py_or_def PY_35_VERSION_def DEFAULT_NAME_def target_def
  dockerfile_def Let_def py_split_2 unpack2_def

lemmas re_eval = re_match_ARG_def is_space_def is_word_def newline_def Let_def

text \<open>
  Claim C4. In template output with neither \<^verbatim>\<open>--test\<close> nor \<^verbatim>\<open>--s2i\<close>,
  when the output path can be opened for writing and the Dockerfile can be read after
  that, the file written has one line for each line read, and a line that matches the
  \<^verbatim>\<open>ARG\<close> pattern with name \<open>name\<close> and rest \<open>dflt\<close> is written as
  \<^verbatim>\<open>ARG name=value\<close> and a line feed, where the value is the one the merged
  mapping gives the name, or \<open>dflt\<close> when the mapping has no such key. A line
  \<^verbatim>\<open>ARG name=dflt\<close> ending in a line feed, its name made of word characters,
  is such a line. The lines are those read once the output has been emptied: none, when
  the Dockerfile is the output itself.
\<close>

theorem template_substitution:
  assumes "resolve a = Inr p" and "truthy (arg_output a)" and "\<not> arg_test a" and "\<not> arg_s2i a"
    and "env_file e (the (arg_output a)) = Some out"
    and "read_lines e ((env_fs e)(out \<mapsto> [])) (p_dockerfile p) = Some lines"
  shows "\<exists>written.
           files (main a e) out = Some written
         \<and> exit_code (main a e) = 0
         \<and> length written = length lines
         \<and> (\<forall>i<length lines. \<forall>name dflt.
               re_match_ARG (lines ! i) = Some (name, dflt) \<longrightarrow>
               written ! i =
                 ''ARG '' @ name @ ''=''
                   @ (case dict_get (p_build_args p) name of Some v \<Rightarrow> v | None \<Rightarrow> dflt)
                   @ [newline])
         \<and> (\<forall>i<length lines. \<forall>name dflt.
               lines ! i = ''ARG '' @ name @ ''='' @ dflt @ [newline]
               \<and> name \<noteq> [] \<and> (\<forall>c\<in>set name. is_word c) \<and> newline \<notin> set dflt \<longrightarrow>
               written ! i =
                 ''ARG '' @ name @ ''=''
                   @ (case dict_get (p_build_args p) name of Some v \<Rightarrow> v | None \<Rightarrow> dflt)
                   @ [newline])"
proof -
  let ?written = "map (template_line (p_build_args p)) lines"
  have sp: "src_path a p = p_dockerfile p" and sr: "src_replace a p = p_build_args p"
    using assms(3,4) by (simp_all add: src_path_def src_replace_def)
  have "main a e = template_mode a e p"
    using assms(1,2) by (simp add: main_def)
  also have "\<dots> = \<lparr>exit_code = 0, raised = None, procs = [],
            files = (env_fs e)(out \<mapsto> ?written)\<rparr>"
    using template_mode_written [of e a out p lines] assms(5,6) by (simp add: sp sr)
  finally have f: "files (main a e) out = Some ?written" and x: "exit_code (main a e) = 0"
    by simp_all
  have m: "?written ! i =
             ''ARG '' @ name @ ''=''
               @ (case dict_get (p_build_args p) name of Some v \<Rightarrow> v | None \<Rightarrow> dflt) @ [newline]"
    if "i < length lines" "re_match_ARG (lines ! i) = Some (name, dflt)" for i name dflt
    using that by (simp add: template_line_def)
  have m': "?written ! i =
             ''ARG '' @ name @ ''=''
               @ (case dict_get (p_build_args p) name of Some v \<Rightarrow> v | None \<Rightarrow> dflt) @ [newline]"
    if "i < length lines" "lines ! i = ''ARG '' @ name @ ''='' @ dflt @ [newline]"
      "name \<noteq> []" "\<forall>c\<in>set name. is_word c" "newline \<notin> set dflt" for i name dflt
    using m [OF that(1)] re_match_ARG_plain [OF that(3,4,5)] that(2) by simp
  from f x m m' show ?thesis by (intro exI [of _ ?written]) auto
qed

theorem template_substitution_witness:
  "\<exists>written.
     files (main (default_args ''1.6''\<lparr>arg_output := Some ''Dockerfile.out'',
                                       arg_build_arg := Some [''FOO=baz'']\<rparr>)
              \<lparr>env_file = [''Dockerfile.out'' \<mapsto> 0, ''1.6/Dockerfile.ubuntu'' \<mapsto> 1],
               env_fs = [1 \<mapsto>
                          [''FROM ubuntu'' @ [newline], ''ARG FOO=bar'' @ [newline],
                           ''ARG other=1'' @ [newline], ''RUN make'']],
               env_randint = 123456,
               env_run = (\<lambda>n argv. \<lparr>returncode = 0, stdout_int = Some 1\<rparr>)\<rparr>)
       0 = Some written
   \<and> written ! 1 = ''ARG FOO=baz'' @ [newline]
   \<and> written ! 2 = ''ARG other=1'' @ [newline]"
proof -
  let ?a = "default_args ''1.6''\<lparr>arg_output := Some ''Dockerfile.out'',
                                       arg_build_arg := Some [''FOO=baz'']\<rparr>"
  let ?lines = "[''FROM ubuntu'' @ [newline], ''ARG FOO=bar'' @ [newline],
                           ''ARG other=1'' @ [newline], ''RUN make'']"
  let ?e = "\<lparr>env_file = [''Dockerfile.out'' \<mapsto> 0, ''1.6/Dockerfile.ubuntu'' \<mapsto> 1],
               env_fs = [1 \<mapsto> ?lines],
               env_randint = 123456,
               env_run = (\<lambda>n argv. \<lparr>returncode = 0, stdout_int = Some 1\<rparr>)\<rparr>"
  obtain p where r: "resolve ?a = Inr p" and df: "p_dockerfile p = ''1.6/Dockerfile.ubuntu''"
    and foo: "dict_get (p_build_args p) ''FOO'' = Some ''baz''"
    and other: "dict_get (p_build_args p) ''other'' = None"
    by (simp add: resolve_eval dict_get_def)
  have h2: "truthy (arg_output ?a)" and h3: "\<not> arg_test ?a" and h4: "\<not> arg_s2i ?a"
    by (simp_all add: truthy_def default_args_def)
  have h5: "env_file ?e (the (arg_output ?a)) = Some 0"
    by (simp add: default_args_def)
  have h6: "read_lines ?e ((env_fs ?e)(0 \<mapsto> [])) (p_dockerfile p) = Some ?lines"
    by (simp add: df read_lines_def)
  from template_substitution [OF r h2 h3 h4 h5 h6] obtain written where
    f: "files (main ?a ?e) 0 = Some written"
    and m: "\<forall>i<length ?lines. \<forall>name dflt.
               re_match_ARG (?lines ! i) = Some (name, dflt) \<longrightarrow>
               written ! i =
                 ''ARG '' @ name @ ''=''
                   @ (case dict_get (p_build_args p) name of Some v \<Rightarrow> v | None \<Rightarrow> dflt)
                   @ [newline]"
    by blast
  have m1: "re_match_ARG (?lines ! 1) = Some (''FOO'', ''bar'')"
    and m2: "re_match_ARG (?lines ! 2) = Some (''other'', ''1'')"
    by (simp_all add: re_eval)
  have w1: "written ! 1 = ''ARG FOO=baz'' @ [newline]"
    using m [rule_format, of 1 "''FOO''" "''bar''"] m1 foo by simp
  have w2: "written ! 2 = ''ARG other=1'' @ [newline]"
    using m [rule_format, of 2 "''other''" "''1''"] m2 other by simp
  from f w1 w2 show ?thesis by simp
qed

text \<open>
  Claim C5. In template output (whichever template is read), when the output path can be
  opened for writing and the template can be read after that, the file written has as many
  lines as were read, the line at each position is the rewriting of the line read at that
  position, and a line that does not match the \<^verbatim>\<open>ARG\<close> pattern is written as
  it was read. The lines are those read once the output has been emptied.
\<close>

theorem unmatched_lines_verbatim:
  assumes "resolve a = Inr p" and "truthy (arg_output a)"
    and "env_file e (the (arg_output a)) = Some out"
    and "read_lines e ((env_fs e)(out \<mapsto> [])) (src_path a p) = Some lines"
  shows "\<exists>written.
           files (main a e) out = Some written
         \<and> length written = length lines
         \<and> (\<forall>i<length lines. re_match_ARG (lines ! i) = None \<longrightarrow> written ! i = lines ! i)
         \<and> (\<forall>i<length lines. written ! i = template_line (src_replace a p) (lines ! i))"
proof -
  let ?written = "map (template_line (src_replace a p)) lines"
  have "main a e = template_mode a e p"
    using assms(1,2) by (simp add: main_def)
  then have f: "files (main a e) out = Some ?written"
    using template_mode_written [OF assms(3,4)] by simp
  have "?written ! i = lines ! i" if "i < length lines" "re_match_ARG (lines ! i) = None" for i
    using that by (simp add: template_line_def)
  with f show ?thesis by (intro exI [of _ ?written]) auto
qed

theorem unmatched_lines_verbatim_witness:
  "\<exists>written.
     files (main (default_args ''1.6''\<lparr>arg_output := Some ''Dockerfile.out'', arg_s2i := True\<rparr>)
              \<lparr>env_file = [''Dockerfile.out'' \<mapsto> 0, ''1.6/Dockerfile.s2i'' \<mapsto> 1],
               env_fs = [1 \<mapsto>
                          [''ARG base_image'' @ [newline], ''FROM base'' @ [newline],
                           '' ARG indented=1'' @ [newline], ''ARGUMENT x=y'']],
               env_randint = 123456,
               env_run = (\<lambda>n argv. \<lparr>returncode = 0, stdout_int = Some 1\<rparr>)\<rparr>)
       0 = Some written
   \<and> length written = 4
   \<and> written ! 1 = ''FROM base'' @ [newline]
   \<and> written ! 2 = '' ARG indented=1'' @ [newline]
   \<and> written ! 3 = ''ARGUMENT x=y''"
proof -
  let ?a = "default_args ''1.6''\<lparr>arg_output := Some ''Dockerfile.out'', arg_s2i := True\<rparr>"
  let ?lines = "[''ARG base_image'' @ [newline], ''FROM base'' @ [newline],
                           '' ARG indented=1'' @ [newline], ''ARGUMENT x=y'']"
  let ?e = "\<lparr>env_file = [''Dockerfile.out'' \<mapsto> 0, ''1.6/Dockerfile.s2i'' \<mapsto> 1],
               env_fs = [1 \<mapsto> ?lines],
               env_randint = 123456,
               env_run = (\<lambda>n argv. \<lparr>returncode = 0, stdout_int = Some 1\<rparr>)\<rparr>"
  obtain p where r: "resolve ?a = Inr p" and tg: "p_target p = ''1.6''"
    by (simp add: resolve_eval)
  have h2: "truthy (arg_output ?a)"
    by (simp add: truthy_def default_args_def)
  have h3: "env_file ?e (the (arg_output ?a)) = Some 0"
    by (simp add: default_args_def)
  have h4: "read_lines ?e ((env_fs ?e)(0 \<mapsto> [])) (src_path ?a p) = Some ?lines"
    by (simp add: src_path_def tg default_args_def read_lines_def)
  from unmatched_lines_verbatim [OF r h2 h3 h4] obtain written where
    f: "files (main ?a ?e) 0 = Some written"
    and l: "length written = length ?lines"
    and m: "\<forall>i<length ?lines. re_match_ARG (?lines ! i) = None \<longrightarrow> written ! i = ?lines ! i"
    by blast
  have n: "re_match_ARG (?lines ! 1) = None" "re_match_ARG (?lines ! 2) = None"
    "re_match_ARG (?lines ! 3) = None"
    by (simp_all add: re_eval)
  have "written ! 1 = ?lines ! 1" "written ! 2 = ?lines ! 2" "written ! 3 = ?lines ! 3"
    using m [rule_format, of 1] m [rule_format, of 2] m [rule_format, of 3] n by simp_all
  with f l show ?thesis by simp
qed

text \<open>
  Claim C10, as it stands, fails: an output path alone does not make the run write the
  file and end with status 0. Here \<^verbatim>\<open>make_image.py 1.6 -o Dockerfile.out\<close> runs
  where \<^verbatim>\<open>1.6/Dockerfile.ubuntu\<close> is not there: the output is created empty, the
  open of the template raises, and the exit status is 1.
\<close>

theorem template_missing_exit_1:
  "truthy (arg_output (default_args ''1.6''\<lparr>arg_output := Some ''Dockerfile.out''\<rparr>))
   \<and> main (default_args ''1.6''\<lparr>arg_output := Some ''Dockerfile.out''\<rparr>)
       \<lparr>env_file = [''Dockerfile.out'' \<mapsto> 0, ''1.6/Dockerfile.ubuntu'' \<mapsto> 1],
        env_fs = Map.empty,
        env_randint = 123456,
        env_run = (\<lambda>n argv. \<lparr>returncode = 0, stdout_int = Some 1\<rparr>)\<rparr>
     = \<lparr>exit_code = 1, raised = Some FileNotFoundError, procs = [], files = [0 \<mapsto> []]\<rparr>"
  by (simp add: main_def resolve_eval template_mode_def read_lines_def src_path_def
      uncaught_def)

text \<open>
  Claim C10, amended. With an output path that is not empty, no child process is ever
  run. When moreover the resolution succeeds, the output path can be opened for writing
  and the template can be read after that, the run ends with exit status 0 and the output
  holds the rewritten template: with \<^verbatim>\<open>--test\<close> the template is
  \<^verbatim>\<open>Dockerfile.test\<close> of the target directory, otherwise with
  \<^verbatim>\<open>--s2i\<close> it is \<^verbatim>\<open>Dockerfile.s2i\<close>, and in both cases the only
  substitution is \<open>base_image\<close> by the full tag; with neither it is the Dockerfile and
  the merged build arguments. The exit status is 0 in no other case.
\<close>

theorem template_mode_behaviour:
  "(truthy (arg_output a) \<longrightarrow> procs (main a e) = [])
   \<and> (truthy (arg_output a) \<and> resolve a = Inr p \<and> env_file e (the (arg_output a)) = Some out \<longrightarrow>
        (arg_test a
           \<and> read_lines e ((env_fs e)(out \<mapsto> [])) (p_target p @ ''/Dockerfile.test'') = Some lines \<longrightarrow>
           main a e = \<lparr>exit_code = 0, raised = None, procs = [],
                       files = (env_fs e)(out \<mapsto>
                                 map (template_line [(''base_image'', p_tag p)]) lines)\<rparr>)
      \<and> (\<not> arg_test a \<and> arg_s2i a
           \<and> read_lines e ((env_fs e)(out \<mapsto> [])) (p_target p @ ''/Dockerfile.s2i'') = Some lines \<longrightarrow>
           main a e = \<lparr>exit_code = 0, raised = None, procs = [],
                       files = (env_fs e)(out \<mapsto>
                                 map (template_line [(''base_image'', p_tag p)]) lines)\<rparr>)
      \<and> (\<not> arg_test a \<and> \<not> arg_s2i a
           \<and> read_lines e ((env_fs e)(out \<mapsto> [])) (p_dockerfile p) = Some lines \<longrightarrow>
           main a e = \<lparr>exit_code = 0, raised = None, procs = [],
                       files = (env_fs e)(out \<mapsto>
                                 map (template_line (p_build_args p)) lines)\<rparr>))
   \<and> (truthy (arg_output a) \<and> exit_code (main a e) = 0 \<longrightarrow>
        (\<exists>p' out' lines'.
           resolve a = Inr p' \<and> env_file e (the (arg_output a)) = Some out'
           \<and> read_lines e ((env_fs e)(out' \<mapsto> [])) (src_path a p') = Some lines'))"
proof -
  have none: "procs (main a e) = []" if "truthy (arg_output a)"
    using that by (simp add: main_def template_mode_procs uncaught_def split: sum.splits)
  have m: "main a e = template_mode a e p" if "truthy (arg_output a)" "resolve a = Inr p"
    using that by (simp add: main_def)
  have t: "main a e = \<lparr>exit_code = 0, raised = None, procs = [],
                       files = (env_fs e)(out \<mapsto>
                                 map (template_line [(''base_image'', p_tag p)]) lines)\<rparr>"
    if "truthy (arg_output a)" "resolve a = Inr p" "env_file e (the (arg_output a)) = Some out"
      "arg_test a"
      "read_lines e ((env_fs e)(out \<mapsto> [])) (p_target p @ ''/Dockerfile.test'') = Some lines"
    using m [OF that(1,2)] template_mode_written [of e a out p lines] that(3,4,5)
    by (simp add: src_path_def src_replace_def)
  have s: "main a e = \<lparr>exit_code = 0, raised = None, procs = [],
                       files = (env_fs e)(out \<mapsto>
                                 map (template_line [(''base_image'', p_tag p)]) lines)\<rparr>"
    if "truthy (arg_output a)" "resolve a = Inr p" "env_file e (the (arg_output a)) = Some out"
      "\<not> arg_test a" "arg_s2i a"
      "read_lines e ((env_fs e)(out \<mapsto> [])) (p_target p @ ''/Dockerfile.s2i'') = Some lines"
    using m [OF that(1,2)] template_mode_written [of e a out p lines] that(3,4,5,6)
    by (simp add: src_path_def src_replace_def)
  have d: "main a e = \<lparr>exit_code = 0, raised = None, procs = [],
                       files = (env_fs e)(out \<mapsto>
                                 map (template_line (p_build_args p)) lines)\<rparr>"
    if "truthy (arg_output a)" "resolve a = Inr p" "env_file e (the (arg_output a)) = Some out"
      "\<not> arg_test a" "\<not> arg_s2i a"
      "read_lines e ((env_fs e)(out \<mapsto> [])) (p_dockerfile p) = Some lines"
    using m [OF that(1,2)] template_mode_written [of e a out p lines] that(3,4,5,6)
    by (simp add: src_path_def src_replace_def)
  have z: "\<exists>p' out' lines'.
           resolve a = Inr p' \<and> env_file e (the (arg_output a)) = Some out'
           \<and> read_lines e ((env_fs e)(out' \<mapsto> [])) (src_path a p') = Some lines'"
    if "truthy (arg_output a)" "exit_code (main a e) = 0"
  proof (cases "resolve a")
    case (Inl err)
    with that(2) show ?thesis by (simp add: main_def uncaught_def split: if_splits)
  next
    case (Inr p')
    with that have "exit_code (template_mode a e p') = 0" by (simp add: main_def)
    from template_mode_exit_0 [OF this] Inr show ?thesis by blast
  qed
  from none t s d z show ?thesis by blast
qed

theorem template_mode_behaviour_witness:
  "main (default_args ''1.0std''\<lparr>arg_output := Some ''Dockerfile.out'', arg_test := True\<rparr>)
     \<lparr>env_file = [''Dockerfile.out'' \<mapsto> 0, ''1.0/Dockerfile.test'' \<mapsto> 1],
      env_fs = [1 \<mapsto> [''ARG base_image'' @ [newline], ''FROM base'' @ [newline]]],
      env_randint = 123456,
      env_run = (\<lambda>n argv. \<lparr>returncode = 0, stdout_int = Some 1\<rparr>)\<rparr>
   = \<lparr>exit_code = 0, raised = None, procs = [],
      files = [1 \<mapsto> [''ARG base_image'' @ [newline], ''FROM base'' @ [newline]],
               0 \<mapsto>
                 [''ARG base_image=bcgovimages/von-image:py35-1.0std'' @ [newline],
                  ''FROM base'' @ [newline]]]\<rparr>"
proof -
  let ?a = "default_args ''1.0std''\<lparr>arg_output := Some ''Dockerfile.out'', arg_test := True\<rparr>"
  let ?lines = "[''ARG base_image'' @ [newline], ''FROM base'' @ [newline]]"
  let ?e = "\<lparr>env_file = [''Dockerfile.out'' \<mapsto> 0, ''1.0/Dockerfile.test'' \<mapsto> 1],
      env_fs = [1 \<mapsto> ?lines],
      env_randint = 123456,
      env_run = (\<lambda>n argv. \<lparr>returncode = 0, stdout_int = Some 1\<rparr>)\<rparr>"
  obtain p where r: "resolve ?a = Inr p" and tg: "p_target p = ''1.0''"
    and tag: "p_tag p = ''bcgovimages/von-image:py35-1.0std''"
    by (simp add: resolve_eval)
  have h: "truthy (arg_output ?a)" "arg_test ?a"
    by (simp_all add: truthy_def default_args_def)
  have o: "env_file ?e (the (arg_output ?a)) = Some 0"
    by (simp add: default_args_def)
  have fs: "read_lines ?e ((env_fs ?e)(0 \<mapsto> [])) (p_target p @ ''/Dockerfile.test'') = Some ?lines"
    by (simp add: tg read_lines_def)
  have "main ?a ?e = \<lparr>exit_code = 0, raised = None, procs = [],
                       files = (env_fs ?e)(0 \<mapsto>
                                 map (template_line [(''base_image'', p_tag p)]) ?lines)\<rparr>"
    using template_mode_behaviour [of ?a ?e p 0 ?lines] h r o fs by blast
  then show ?thesis
    by (simp add: tag template_line_def re_eval dict_get_def)
qed

subsection \<open>The build steps\<close>

lemma render_build_args_concat:
  "render_build_args cmd_args d =
     cmd_args @ concat (map (\<lambda>(k, v). [''--build-arg'', k @ ''='' @ v]) d)"
  by (induction cmd_args d rule: render_build_args.induct) auto

lemma py_or_nonempty: "d \<noteq> [] \<Longrightarrow> py_or x d \<noteq> []"
  by (simp add: py_or_def split: option.splits)

lemma resolve_dockerfile_nonempty: "resolve a = Inr p \<Longrightarrow> p_dockerfile p \<noteq> []"
  by (auto simp: resolve_def dockerfile_def py_or_nonempty split: option.splits sum.splits)

lemma build_cmds_closed:
  assumes "p_dockerfile p \<noteq> []"
  shows "build_cmds a e p =
    ([''docker'', ''build'']
       @ concat (map (\<lambda>(k, v). [''--build-arg'', k @ ''='' @ v]) (p_build_args p))
       @ [''-f'', p_dockerfile p @ ''_indy'']
       @ (if arg_no_cache a then [''--no-cache''] else [])
       @ (if arg_squash a then [''--squash''] else [])
       @ [''-t'', ''local_indy_base'']
       @ [p_target p],
     [''docker'', ''build'']
       @ concat (map (\<lambda>(k, v). [''--build-arg'', k @ ''='' @ v]) (p_build_args p))
       @ [''-f'', p_dockerfile p @ ''_von'']
       @ (if arg_no_cache a then [''--no-cache''] else [])
       @ (if arg_squash a then [''--squash''] else [])
       @ [''-t'', p_tag p]
       @ [''--build-arg'', ''CACHEBUST='' @ str_int (env_randint e)]
       @ [p_target p])"
  using assms by (simp add: build_cmds_def Let_def render_build_args_concat)

lemma prefix_weaken:
  assumes "take (length (tr @ ys)) r = tr @ ys"
  shows "take (length tr) r = tr"
proof -
  have "take (length tr) r = take (length tr) (take (length (tr @ ys)) r)"
    by (simp add: min_def)
  also have "\<dots> = tr" by (subst assms) simp
  finally show ?thesis .
qed

lemma push_stage_prefix: "take (length tr) (procs (push_stage a e p tr)) = tr"
  by (simp add: push_stage_def run_def Let_def sys_exit_def)

lemma test_stage_prefix: "take (length tr) (procs (test_stage a e p tr)) = tr"
proof -
  have "take (length tr) (procs (push_stage a e p (tr @ [x, y]))) = tr" for x y
    using push_stage_prefix [of "tr @ [x, y]" a e p] by (rule prefix_weaken)
  then show ?thesis
    by (simp add: test_stage_def run_def Let_def sys_exit_def push_stage_prefix)
qed

lemma s2i_stage_prefix: "take (length tr) (procs (s2i_stage a e p tr)) = tr"
proof -
  have "take (length tr) (procs (test_stage a e p (tr @ [x]))) = tr" for x
    using test_stage_prefix [of "tr @ [x]" a e p] by (rule prefix_weaken)
  then show ?thesis
    by (simp add: s2i_stage_def run_def Let_def sys_exit_def test_stage_prefix)
qed

lemma build_mode_trace:
  assumes "build_cmds a e p = (cmd_base, cmd)" and "\<not> arg_dry_run a"
  shows "take 1 (procs (build_mode a e p)) =
           [\<lparr>proc_step = BaseBuild, proc_argv = cmd_base,
             proc_returncode = returncode (env_run e 0 cmd_base)\<rparr>]"
    and "returncode (env_run e 0 cmd_base) \<noteq> 0 \<Longrightarrow> length (procs (build_mode a e p)) = 1"
    and "returncode (env_run e 0 cmd_base) = 0 \<Longrightarrow>
         take 2 (procs (build_mode a e p)) =
           [\<lparr>proc_step = BaseBuild, proc_argv = cmd_base,
             proc_returncode = returncode (env_run e 0 cmd_base)\<rparr>,
            \<lparr>proc_step = MainBuild, proc_argv = cmd,
             proc_returncode = returncode (env_run e 1 cmd)\<rparr>]"
proof -
  let ?b = "\<lparr>proc_step = BaseBuild, proc_argv = cmd_base,
             proc_returncode = returncode (env_run e 0 cmd_base)\<rparr>"
  let ?m = "\<lparr>proc_step = MainBuild, proc_argv = cmd,
             proc_returncode = returncode (env_run e 1 cmd)\<rparr>"
  have three: "take 2 (procs (s2i_stage a e p [b, m, x])) = [b, m]" for b m x
    using prefix_weaken [OF s2i_stage_prefix [of "[b, m] @ [x]" a e p]]
    by (simp add: numeral_2_eq_2)
  have one: "take 1 (procs (s2i_stage a e p [b, m, x])) = [b]" for b m x
  proof -
    have "take 1 (procs (s2i_stage a e p [b, m, x]))
            = take 1 (take 2 (procs (s2i_stage a e p [b, m, x])))"
      by (simp add: min_def)
    also have "\<dots> = [b]" by (subst three) simp
    finally show ?thesis .
  qed
  show "take 1 (procs (build_mode a e p)) = [?b]"
    using assms one
    by (simp add: build_mode_def run_def Let_def sys_exit_def uncaught_def split: option.splits)
  show "length (procs (build_mode a e p)) = 1" if "returncode (env_run e 0 cmd_base) \<noteq> 0"
    using assms that by (simp add: build_mode_def run_def Let_def sys_exit_def)
  show "take 2 (procs (build_mode a e p)) = [?b, ?m]" if "returncode (env_run e 0 cmd_base) = 0"
    using assms that three
    by (simp add: build_mode_def run_def Let_def sys_exit_def uncaught_def split: option.splits)
qed

lemmas build_eval =
  main_def build_mode_def build_cmds_def run_def sys_exit_def uncaught_def
  render_build_args_concat

text \<open>
  Claim C9. When the script builds (no output path, no dry run), the first child process
  is the base build and, if that returns zero, the second is the main build. Both
  argument vectors start with \<^verbatim>\<open>docker build\<close> and one
  \<^verbatim>\<open>--build-arg key=value\<close> pair for each item of the merged mapping, in
  order. After its tag the main build has one more pair,
  \<^verbatim>\<open>--build-arg CACHEBUST=\<close> followed by the random integer in decimal; the
  base build has nothing in that place.
\<close>

theorem build_invocations:
  assumes "resolve a = Inr p" and "\<not> truthy (arg_output a)" and "\<not> arg_dry_run a"
  shows "\<exists>cmd_base cmd.
      cmd_base =
        [''docker'', ''build'']
          @ concat (map (\<lambda>(k, v). [''--build-arg'', k @ ''='' @ v]) (p_build_args p))
          @ [''-f'', p_dockerfile p @ ''_indy'']
          @ (if arg_no_cache a then [''--no-cache''] else [])
          @ (if arg_squash a then [''--squash''] else [])
          @ [''-t'', ''local_indy_base'']
          @ [p_target p]
    \<and> cmd =
        [''docker'', ''build'']
          @ concat (map (\<lambda>(k, v). [''--build-arg'', k @ ''='' @ v]) (p_build_args p))
          @ [''-f'', p_dockerfile p @ ''_von'']
          @ (if arg_no_cache a then [''--no-cache''] else [])
          @ (if arg_squash a then [''--squash''] else [])
          @ [''-t'', p_tag p]
          @ [''--build-arg'', ''CACHEBUST='' @ str_int (env_randint e)]
          @ [p_target p]
    \<and> take 1 (procs (main a e)) =
          [\<lparr>proc_step = BaseBuild, proc_argv = cmd_base,
            proc_returncode = returncode (env_run e 0 cmd_base)\<rparr>]
    \<and> (returncode (env_run e 0 cmd_base) \<noteq> 0 \<longrightarrow> length (procs (main a e)) = 1)
    \<and> (returncode (env_run e 0 cmd_base) = 0 \<longrightarrow>
          take 2 (procs (main a e)) =
            [\<lparr>proc_step = BaseBuild, proc_argv = cmd_base,
              proc_returncode = returncode (env_run e 0 cmd_base)\<rparr>,
             \<lparr>proc_step = MainBuild, proc_argv = cmd,
              proc_returncode = returncode (env_run e 1 cmd)\<rparr>])"
proof -
  have m: "main a e = build_mode a e p"
    using assms(1,2) by (simp add: main_def)
  note c = build_cmds_closed [OF resolve_dockerfile_nonempty [OF assms(1)], of a e]
  show ?thesis
    using build_mode_trace [OF c assms(3)] unfolding m by blast
qed

theorem build_invocations_witness:
  "take 2 (procs (main (default_args ''1.6''\<lparr>arg_squash := True\<rparr>)
       \<lparr>env_file = (\<lambda>path. None), env_fs = Map.empty, env_randint = 123456,
        env_run = (\<lambda>n argv. \<lparr>returncode = 0, stdout_int = Some 1\<rparr>)\<rparr>))
   = [\<lparr>proc_step = BaseBuild,
       proc_argv =
         [''docker'', ''build'',
          ''--build-arg'',
          ''indy_sdk_url=https://codeload.github.com/hyperledger/indy-sdk/tar.gz/5a37407baaf756b3c4f5cac802717dc4a2bd1660'',
          ''--build-arg'',
          ''indy_crypto_url=https://codeload.github.com/hyperledger/indy-crypto/tar.gz/a2864642430064c6f00902e9b999cc6356eed9f1'',
          ''--build-arg'', ''python_version=3.5.5'',
          ''--build-arg'', ''tag_name=bcgovimages/von-image'',
          ''--build-arg'', ''tag_version=py35-1.6-11'',
          ''--build-arg'', ''indy_build_flags=--release'',
          ''-f'', ''1.6/Dockerfile.ubuntu_indy'', ''--squash'',
          ''-t'', ''local_indy_base'', ''1.6''],
       proc_returncode = 0\<rparr>,
      \<lparr>proc_step = MainBuild,
       proc_argv =
         [''docker'', ''build'',
          ''--build-arg'',
          ''indy_sdk_url=https://codeload.github.com/hyperledger/indy-sdk/tar.gz/5a37407baaf756b3c4f5cac802717dc4a2bd1660'',
          ''--build-arg'',
          ''indy_crypto_url=https://codeload.github.com/hyperledger/indy-crypto/tar.gz/a2864642430064c6f00902e9b999cc6356eed9f1'',
          ''--build-arg'', ''python_version=3.5.5'',
          ''--build-arg'', ''tag_name=bcgovimages/von-image'',
          ''--build-arg'', ''tag_version=py35-1.6-11'',
          ''--build-arg'', ''indy_build_flags=--release'',
          ''-f'', ''1.6/Dockerfile.ubuntu_von'', ''--squash'',
          ''-t'', ''bcgovimages/von-image:py35-1.6-11'',
          ''--build-arg'', ''CACHEBUST=123456'', ''1.6''],
       proc_returncode = 0\<rparr>]"
proof -
  let ?a = "default_args ''1.6''\<lparr>arg_squash := True\<rparr>"
  let ?e = "\<lparr>env_file = (\<lambda>path. None), env_fs = Map.empty, env_randint = 123456,
        env_run = (\<lambda>n argv. \<lparr>returncode = 0, stdout_int = Some 1\<rparr>)\<rparr>"
  obtain p where r: "resolve ?a = Inr p"
    and p: "p = \<lparr>p_target = ''1.6'', p_dockerfile = ''1.6/Dockerfile.ubuntu'',
          p_tag = ''bcgovimages/von-image:py35-1.6-11'',
          p_build_args =
            [(''indy_sdk_url'',
              ''https://codeload.github.com/hyperledger/indy-sdk/tar.gz/5a37407baaf756b3c4f5cac802717dc4a2bd1660''),
             (''indy_crypto_url'',
              ''https://codeload.github.com/hyperledger/indy-crypto/tar.gz/a2864642430064c6f00902e9b999cc6356eed9f1''),
             (''python_version'', ''3.5.5''),
             (''tag_name'', ''bcgovimages/von-image''),
             (''tag_version'', ''py35-1.6-11''),
             (''indy_build_flags'', ''--release'')]\<rparr>"
    by (simp add: resolve_eval)
  have h2: "\<not> truthy (arg_output ?a)" and h3: "\<not> arg_dry_run ?a"
    by (simp_all add: truthy_def default_args_def)
  have n: "str_int 123456 = ''123456''"
    by (simp add: str_int_def str_nat.simps digit_char_def)
  from build_invocations [OF r h2 h3, of ?e] show ?thesis
    by (simp add: p n default_args_def)
qed

subsection \<open>Failing steps\<close>

lemma clean_Nil: "clean e []"
  by (simp add: clean_def recorded_def)

lemma recorded_snoc:
  "recorded e tr \<Longrightarrow>
   recorded e (tr @ [\<lparr>proc_step = s, proc_argv = argv,
                       proc_returncode = returncode (env_run e (length tr) argv)\<rparr>])"
  by (auto simp: recorded_def nth_append less_Suc_eq)

lemma clean_snoc:
  assumes "clean e tr" and "s = Inspect \<or> returncode (env_run e (length tr) argv) = 0"
  shows "clean e (tr @ [\<lparr>proc_step = s, proc_argv = argv,
                          proc_returncode = returncode (env_run e (length tr) argv)\<rparr>])"
  using assms by (auto simp: clean_def recorded_snoc failed_def)

lemma fail_stop_exit0: "clean e tr \<Longrightarrow> fail_stop e (sys_exit 0 tr fs)"
  by (auto simp: clean_def fail_stop_def sys_exit_def)

lemma fail_stop_uncaught: "clean e tr \<Longrightarrow> fail_stop e (uncaught err tr fs)"
  by (auto simp: clean_def fail_stop_def uncaught_def)

lemma fail_stop_exit1:
  assumes "clean e tr"
  shows "fail_stop e (sys_exit 1 (tr @ [\<lparr>proc_step = s, proc_argv = argv,
                          proc_returncode = returncode (env_run e (length tr) argv)\<rparr>]) fs)"
proof -
  let ?x = "\<lparr>proc_step = s, proc_argv = argv,
             proc_returncode = returncode (env_run e (length tr) argv)\<rparr>"
  have rec: "recorded e (tr @ [?x])"
    using assms by (simp add: clean_def recorded_snoc)
  have last: "Suc i = length (tr @ [?x])" if "i < length (tr @ [?x])" "failed ((tr @ [?x]) ! i)" for i
  proof (cases "i < length tr")
    case True
    then have "(tr @ [?x]) ! i \<in> set tr" by (simp add: nth_append)
    with assms that(2) show ?thesis by (auto simp: clean_def)
  next
    case False
    with that(1) show ?thesis by simp
  qed
  from rec last show ?thesis by (simp add: fail_stop_def sys_exit_def)
qed

lemma checked_step:
  assumes "clean e tr" and "\<And>tr'. clean e tr' \<Longrightarrow> fail_stop e (k tr')"
  shows "fail_stop e
           (case run e tr s argv of
              (tr', c) \<Rightarrow> if returncode c \<noteq> 0 then sys_exit 1 tr' (env_fs e) else k tr')"
proof (cases "returncode (env_run e (length tr) argv) = 0")
  case True
  then show ?thesis
    using assms(2) [OF clean_snoc [OF assms(1), of s argv]] by (simp add: run_def Let_def)
next
  case False
  then show ?thesis
    using fail_stop_exit1 [OF assms(1), of s argv] by (simp add: run_def Let_def)
qed

lemma unchecked_step:
  assumes "clean e tr" and "\<And>tr' c. clean e tr' \<Longrightarrow> fail_stop e (k tr' c)"
  shows "fail_stop e (case run e tr Inspect argv of (tr', c) \<Rightarrow> k tr' c)"
  using assms(2) [OF clean_snoc [OF assms(1), of Inspect argv]] by (simp add: run_def Let_def)

lemma push_stage_fail_stop: "clean e tr \<Longrightarrow> fail_stop e (push_stage a e p tr)"
  unfolding push_stage_def Let_def
  by (auto intro!: checked_step fail_stop_exit0)

lemma test_stage_fail_stop: "clean e tr \<Longrightarrow> fail_stop e (test_stage a e p tr)"
  unfolding test_stage_def Let_def
  by (auto intro!: checked_step fail_stop_exit0 push_stage_fail_stop)

lemma s2i_stage_fail_stop: "clean e tr \<Longrightarrow> fail_stop e (s2i_stage a e p tr)"
  unfolding s2i_stage_def Let_def
  by (auto intro!: checked_step test_stage_fail_stop)

lemma inspect_fail_stop:
  "clean e tr \<Longrightarrow>
   fail_stop e (case stdout_int c of
                  None \<Rightarrow> uncaught ValueError tr (env_fs e)
                | Some size_bytes \<Rightarrow> s2i_stage a e p tr)"
  by (simp add: fail_stop_uncaught s2i_stage_fail_stop split: option.splits)

lemma build_mode_fail_stop: "fail_stop e (build_mode a e p)"
proof -
  obtain cmd_base cmd where c: "build_cmds a e p = (cmd_base, cmd)"
    by (cases "build_cmds a e p") auto
  show ?thesis
    unfolding build_mode_def Let_def c prod.case
    by (auto intro!: checked_step unchecked_step inspect_fail_stop s2i_stage_fail_stop clean_Nil)
qed

lemma template_mode_fail_stop: "fail_stop e (template_mode a e p)"
  by (simp add: template_mode_def Let_def fail_stop_exit0 fail_stop_uncaught clean_Nil
      split: option.splits)

lemma main_fail_stop: "fail_stop e (main a e)"
  by (simp add: main_def build_mode_fail_stop template_mode_fail_stop fail_stop_uncaught
      clean_Nil split: sum.splits)

text \<open>
  Claim C6. In every run the recorded return codes are those the child processes gave;
  a base build, main build, s2i build, test image build, test run or push that returns
  a code other than zero is the last child process of the run, and the exit status is
  then 1; an exit status 0 means that every such step of the run returned zero.
\<close>

theorem failed_step_stops_run:
  "(\<forall>i<length (procs (main a e)).
      proc_returncode (procs (main a e) ! i)
        = returncode (env_run e i (proc_argv (procs (main a e) ! i))))
   \<and> (\<forall>i<length (procs (main a e)).
        proc_step (procs (main a e) ! i) \<in> {BaseBuild, MainBuild, S2iBuild, TestBuild, TestRun, Push}
        \<and> proc_returncode (procs (main a e) ! i) \<noteq> 0 \<longrightarrow>
        Suc i = length (procs (main a e)) \<and> exit_code (main a e) = 1)
   \<and> (exit_code (main a e) = 0 \<longrightarrow>
        (\<forall>pr\<in>set (procs (main a e)).
           proc_step pr \<in> {BaseBuild, MainBuild, S2iBuild, TestBuild, TestRun, Push} \<longrightarrow>
           proc_returncode pr = 0))"
  using main_fail_stop [of e a] unfolding fail_stop_def recorded_def failed_def by blast

theorem failed_step_stops_run_witness:
  "proc_step (procs (main (default_args ''1.6'')
       \<lparr>env_file = (\<lambda>path. None), env_fs = Map.empty, env_randint = 123456,
        env_run = (\<lambda>n argv. \<lparr>returncode = (if n = 1 then 2 else 0), stdout_int = Some 1\<rparr>)\<rparr>) ! 1)
     = MainBuild
   \<and> proc_returncode (procs (main (default_args ''1.6'')
       \<lparr>env_file = (\<lambda>path. None), env_fs = Map.empty, env_randint = 123456,
        env_run = (\<lambda>n argv. \<lparr>returncode = (if n = 1 then 2 else 0), stdout_int = Some 1\<rparr>)\<rparr>) ! 1)
     = 2
   \<and> length (procs (main (default_args ''1.6'')
       \<lparr>env_file = (\<lambda>path. None), env_fs = Map.empty, env_randint = 123456,
        env_run = (\<lambda>n argv. \<lparr>returncode = (if n = 1 then 2 else 0), stdout_int = Some 1\<rparr>)\<rparr>))
     = 2
   \<and> exit_code (main (default_args ''1.6'')
       \<lparr>env_file = (\<lambda>path. None), env_fs = Map.empty, env_randint = 123456,
        env_run = (\<lambda>n argv. \<lparr>returncode = (if n = 1 then 2 else 0), stdout_int = Some 1\<rparr>)\<rparr>)
     = 1"
proof -
  let ?a = "default_args ''1.6''"
  let ?e = "\<lparr>env_file = (\<lambda>path. None), env_fs = Map.empty, env_randint = 123456,
        env_run = (\<lambda>n argv. \<lparr>returncode = (if n = 1 then 2 else 0), stdout_int = Some 1\<rparr>)\<rparr>"
  have h: "1 < length (procs (main ?a ?e))"
    "proc_step (procs (main ?a ?e) ! 1) = MainBuild"
    "proc_returncode (procs (main ?a ?e) ! 1) = 2"
    by (simp_all add: resolve_eval build_eval)
  then have "proc_step (procs (main ?a ?e) ! 1)
                \<in> {BaseBuild, MainBuild, S2iBuild, TestBuild, TestRun, Push}
             \<and> proc_returncode (procs (main ?a ?e) ! 1) \<noteq> 0"
    by simp
  with h(1) failed_step_stops_run [of ?a ?e]
  have "Suc 1 = length (procs (main ?a ?e)) \<and> exit_code (main ?a ?e) = 1"
    by blast
  with h show ?thesis by simp
qed

end
